theory Spec2Isabelle
  imports Complex_Main
begin

section \<open>Common conventions\<close>

text \<open>
  Python floats are modelled as reals, Python ints as integers.  Every draw from a random
  number generator is an explicit argument of the function that draws it, so a theorem that
  quantifies over the argument covers every possible draw.  Wall-clock readings
  (\<^verbatim>\<open>datetime.now()\<close>) are arguments as well; a \<^verbatim>\<open>datetime\<close> is a count of
  microseconds, and \<^verbatim>\<open>(a - b).days\<close> is the floor of the difference in days.
\<close>

datatype error = KeyError | ValueError | IndexError | TypeError

type_synonym datetime = int

definition day_us :: int where
  "day_us = 86400000000"

definition timedelta_days :: "datetime \<Rightarrow> datetime \<Rightarrow> int" where
  "timedelta_days a b = (a - b) div day_us"

text \<open>Python's \<^verbatim>\<open>int(x)\<close> on a float truncates towards zero.\<close>

definition py_int :: "real \<Rightarrow> int" where
  "py_int x = (if 0 \<le> x then \<lfloor>x\<rfloor> else \<lceil>x\<rceil>)"

text \<open>\<^verbatim>\<open>np.mean\<close> of a non-empty list.\<close>

definition np_mean :: "real list \<Rightarrow> real" where
  "np_mean xs = sum_list xs / real (length xs)"


section \<open>Projected-ROI calculator (rl-agent/enhanced\_roi\_calculator.py)\<close>

datatype SeasonType = SPRING | SUMMER | FALL | WINTER

record ProductMetrics =
  product_id :: string
  product_name :: string
  category :: string
  cost_per_unit :: real
  selling_price :: real
  unit_profit_margin :: real
  avg_daily_sales :: real
  sales_velocity_trend :: real
  seasonal_factors :: "SeasonType \<rightharpoonup> real"
  current_inventory :: int
  reorder_point :: int
  lead_time_days :: int
  historical_sell_through_rate :: real
  stockout_probability :: real
  demand_volatility :: real
  last_updated :: datetime

record CalculationFactors =
  projected_demand :: real
  base_daily_sales :: real
  seasonal_factor :: real
  market_factor :: real
  trend_factor :: real
  cf_demand_volatility :: real
  historical_sell_through :: real
  cf_current_inventory :: int
  cf_reorder_point :: int

record ROICalculationResult =
  product_id :: string
  restock_quantity :: int
  total_restock_cost :: real
  cost_per_unit :: real
  projected_units_sold :: int
  expected_revenue :: real
  selling_price_per_unit :: real
  expected_profit :: real
  projected_roi :: real
  sell_through_rate :: real
  stockout_probability :: real
  confidence_score :: real
  time_to_stockout_days :: real
  calculation_factors :: CalculationFactors
  calculated_at :: datetime

record EnhancedROICalculator =
  mock_mode :: bool
  product_metrics :: "string \<rightharpoonup> ProductMetrics"
  market_conditions :: "string \<rightharpoonup> real"

text \<open>
  What one call of \<^verbatim>\<open>calculate_roi\<close> reads from outside the calculator: the clock, the
  value drawn by \<^verbatim>\<open>np.random.normal(0, demand_volatility)\<close>, and the metrics that
  \<^verbatim>\<open>_create_mock_product_metrics\<close> would draw for a product the calculator does not
  know yet.
\<close>

record roi_inputs =
  now :: datetime
  current_month :: nat
  volatility_draw :: real
  mock_metrics :: ProductMetrics

definition get_product_metrics ::
  "roi_inputs \<Rightarrow> EnhancedROICalculator \<Rightarrow> string \<Rightarrow> ProductMetrics \<times> EnhancedROICalculator" where
  "get_product_metrics inp calc pid =
     (case product_metrics calc pid of
        Some pm \<Rightarrow> (pm, calc)
      | None \<Rightarrow> (mock_metrics inp,
                 calc\<lparr>product_metrics := (product_metrics calc)(pid \<mapsto> mock_metrics inp)\<rparr>))"

definition get_seasonal_factor :: "roi_inputs \<Rightarrow> ProductMetrics \<Rightarrow> real" where
  "get_seasonal_factor inp pm =
     (let m = current_month inp;
          season = (if m \<in> {3, 4, 5} then SPRING
                    else if m \<in> {6, 7, 8} then SUMMER
                    else if m \<in> {9, 10, 11} then FALL
                    else WINTER)
      in case seasonal_factors pm season of Some f \<Rightarrow> f | None \<Rightarrow> 1)"

definition calculate_projected_demand ::
  "roi_inputs \<Rightarrow> EnhancedROICalculator \<Rightarrow> ProductMetrics \<Rightarrow> int \<Rightarrow> error + real" where
  "calculate_projected_demand inp calc pm time_window_days =
     (let base_demand = avg_daily_sales pm * real_of_int time_window_days;
          seasonal = get_seasonal_factor inp pm
      in case market_conditions calc ''overall_demand_multiplier'' of
           None \<Rightarrow> Inl KeyError
         | Some market \<Rightarrow>
             let trend = 1 + sales_velocity_trend pm * 0.1
             in if demand_volatility pm < 0 then Inl ValueError
                else let volatility_factor = 1 + volatility_draw inp
                     in Inr (max 0 (base_demand * seasonal * market * trend * volatility_factor)))"

definition calculate_sell_through_rate :: "ProductMetrics \<Rightarrow> int \<Rightarrow> real \<Rightarrow> real" where
  "calculate_sell_through_rate pm quantity demand =
     (let base_rate = historical_sell_through_rate pm;
          demand_ratio = demand / real_of_int (max quantity 1);
          adjusted_rate = (if demand_ratio \<ge> 1 then min 0.98 (base_rate * 1.1)
                           else if demand_ratio \<ge> 0.7 then base_rate
                           else base_rate * 0.8);
          inventory_factor = (if current_inventory pm < reorder_point pm then 1.05 else 1)
      in min 0.98 (max 0.3 (adjusted_rate * inventory_factor)))"

definition normal_cdf :: "real \<Rightarrow> real" where
  "normal_cdf x = 0.5 * (1 + tanh (x * sqrt (2 / pi)))"

definition calculate_stockout_probability :: "ProductMetrics \<Rightarrow> int \<Rightarrow> int \<Rightarrow> real" where
  "calculate_stockout_probability pm quantity time_window_days =
     (let total_inventory = real_of_int (current_inventory pm + quantity);
          expected_demand = avg_daily_sales pm * real_of_int time_window_days;
          demand_std = expected_demand * demand_volatility pm;
          stockout_prob = (if demand_std > 0
                           then 1 - normal_cdf ((total_inventory - expected_demand) / demand_std)
                           else if expected_demand > total_inventory then 1 else 0)
      in min 0.95 (max 0.01 stockout_prob))"

definition calculate_confidence_score :: "roi_inputs \<Rightarrow> ProductMetrics \<Rightarrow> real \<Rightarrow> real \<Rightarrow> real" where
  "calculate_confidence_score inp pm demand rate =
     (let data_age_days = timedelta_days (now inp) (last_updated pm);
          data_quality = max 0.5 (1 - real_of_int data_age_days / 30);
          demand_predictability = 1 - demand_volatility pm;
          historical_accuracy = historical_sell_through_rate pm;
          market_stability = 0.8;
          inventory_adequacy = min 1 (real_of_int (current_inventory pm) / max (demand * 0.1) 1)
      in np_mean [data_quality, demand_predictability, historical_accuracy,
                  market_stability, inventory_adequacy])"

definition calculate_time_to_stockout :: "ProductMetrics \<Rightarrow> int \<Rightarrow> real" where
  "calculate_time_to_stockout pm quantity =
     (let total_inventory = current_inventory pm + quantity
      in if avg_daily_sales pm \<le> 0 then 999
         else real_of_int total_inventory / avg_daily_sales pm)"

definition calculate_roi ::
  "roi_inputs \<Rightarrow> EnhancedROICalculator \<Rightarrow> string \<Rightarrow> int \<Rightarrow> int
     \<Rightarrow> error + (ROICalculationResult \<times> EnhancedROICalculator)" where
  "calculate_roi inp calc0 pid quantity time_window_days =
     (let (pm, calc) = get_product_metrics inp calc0 pid;
          cost = real_of_int quantity * ProductMetrics.cost_per_unit pm
      in case calculate_projected_demand inp calc pm time_window_days of
           Inl e \<Rightarrow> Inl e
         | Inr demand \<Rightarrow>
             let rate = calculate_sell_through_rate pm quantity demand;
                 units_sold = min quantity (py_int (demand * rate));
                 revenue = real_of_int units_sold * selling_price pm;
                 profit = revenue - cost;
                 roi = (if cost > 0 then (profit / cost) * 100 else 0);
                 stockout = calculate_stockout_probability pm quantity time_window_days;
                 confidence = calculate_confidence_score inp pm demand rate;
                 time_to_stockout = calculate_time_to_stockout pm quantity
             in (case market_conditions calc ''overall_demand_multiplier'' of
                  None \<Rightarrow> Inl KeyError
                | Some market \<Rightarrow>
                    Inr (\<lparr> product_id = pid,
                           restock_quantity = quantity,
                           total_restock_cost = cost,
                           cost_per_unit = ProductMetrics.cost_per_unit pm,
                           projected_units_sold = units_sold,
                           expected_revenue = revenue,
                           selling_price_per_unit = selling_price pm,
                           expected_profit = profit,
                           projected_roi = roi,
                           sell_through_rate = rate,
                           stockout_probability = stockout,
                           confidence_score = confidence,
                           time_to_stockout_days = time_to_stockout,
                           calculation_factors =
                             \<lparr> projected_demand = demand,
                               base_daily_sales = avg_daily_sales pm,
                               seasonal_factor = get_seasonal_factor inp pm,
                               market_factor = market,
                               trend_factor = sales_velocity_trend pm,
                               cf_demand_volatility = demand_volatility pm,
                               historical_sell_through = historical_sell_through_rate pm,
                               cf_current_inventory = current_inventory pm,
                               cf_reorder_point = reorder_point pm \<rparr>,
                           calculated_at = now inp \<rparr>, calc)))"

text \<open>The scenario of the specification: cost 25, price 50, ten sales a day, sell-through 0.6.\<close>

definition scenario_metrics :: ProductMetrics where
  "scenario_metrics =
     \<lparr> ProductMetrics.product_id = ''PROD-001'',
       product_name = ''Product PROD-001'',
       category = ''Electronics'',
       ProductMetrics.cost_per_unit = 25,
       selling_price = 50,
       unit_profit_margin = 25,
       avg_daily_sales = 10,
       sales_velocity_trend = 0,
       seasonal_factors = [SPRING \<mapsto> 1, SUMMER \<mapsto> 1, FALL \<mapsto> 1, WINTER \<mapsto> 1],
       current_inventory = 100,
       reorder_point = 70,
       lead_time_days = 7,
       historical_sell_through_rate = 0.6,
       ProductMetrics.stockout_probability = 0.1,
       demand_volatility = 0,
       last_updated = 0 \<rparr>"

definition scenario_calculator :: EnhancedROICalculator where
  "scenario_calculator =
     \<lparr> mock_mode = True,
       product_metrics = [''PROD-001'' \<mapsto> scenario_metrics],
       market_conditions = [''overall_demand_multiplier'' \<mapsto> 1, ''economic_factor'' \<mapsto> 1,
                            ''seasonal_boost'' \<mapsto> 1, ''competition_factor'' \<mapsto> 1] \<rparr>"

definition scenario_inputs :: roi_inputs where
  "scenario_inputs =
     \<lparr> now = 0, current_month = 11, volatility_draw = 0, mock_metrics = scenario_metrics \<rparr>"


definition scenario_result :: ROICalculationResult where
  "scenario_result =
     \<lparr> product_id = ''PROD-001'',
       restock_quantity = 100,
       total_restock_cost = 2500,
       cost_per_unit = 25,
       projected_units_sold = 100,
       expected_revenue = 5000,
       selling_price_per_unit = 50,
       expected_profit = 2500,
       projected_roi = 100,
       sell_through_rate = 0.66,
       stockout_probability = 0.95,
       confidence_score = 0.88,
       time_to_stockout_days = 20,
       calculation_factors =
         \<lparr> projected_demand = 300, base_daily_sales = 10, seasonal_factor = 1,
           market_factor = 1, trend_factor = 0, cf_demand_volatility = 0,
           historical_sell_through = 0.6, cf_current_inventory = 100, cf_reorder_point = 70 \<rparr>,
       calculated_at = 0 \<rparr>"

text \<open>The same product with a standard deviation of daily demand of ten units.\<close>

definition volatile_metrics :: ProductMetrics where
  "volatile_metrics = scenario_metrics\<lparr>demand_volatility := 10\<rparr>"

definition volatile_calculator :: EnhancedROICalculator where
  "volatile_calculator =
     scenario_calculator\<lparr>product_metrics := [''PROD-001'' \<mapsto> volatile_metrics]\<rparr>"


definition volatile_result :: ROICalculationResult where
  "volatile_result =
     scenario_result
       \<lparr> stockout_probability := calculate_stockout_probability volatile_metrics 100 30,
         confidence_score := - 1.12,
         calculation_factors :=
           (calculation_factors scenario_result)\<lparr>cf_demand_volatility := 10\<rparr> \<rparr>"


section \<open>Outcome tracker (rl-agent/enhanced\_outcome\_tracking.py)\<close>

record OutcomeData =
  task_id :: string
  recommendation_id :: string
  approved_at :: datetime
  product_id :: string
  product_name :: string
  predicted_roi :: real
  predicted_profit :: real
  restock_quantity :: int
  restock_cost :: real
  actual_sales_before :: real
  actual_sales_after :: real
  actual_cost :: real
  actual_roi :: real
  actual_profit :: real
  sell_through_rate :: real
  tracking_start :: "datetime option"
  tracking_end :: "datetime option"
  outcome_captured_at :: "datetime option"
  user_feedback :: "string option"
  user_satisfaction :: "real option"
  feedback_collected_at :: "datetime option"
  status :: string

record EnhancedReward =
  task_id :: string
  base_reward :: real
  actual_roi_reward :: real
  user_feedback_bonus :: real
  accuracy_penalty :: real
  total_reward :: real
  confidence_score :: real
  created_at :: datetime

record feedback_entry =
  fb_task_id :: string
  fb_feedback :: string
  fb_satisfaction :: real
  fb_collected_at :: datetime

text \<open>
  The tracker object together with the three JSON files it writes.  A file holds the list
  that was last saved to it.
\<close>

record EnhancedOutcomeTracker =
  tracking_period_days :: int
  mock_mode :: bool
  outcome_data :: "OutcomeData list"
  enhanced_rewards :: "EnhancedReward list"
  outcome_data_file :: "OutcomeData list"
  enhanced_rewards_file :: "EnhancedReward list"
  user_feedback_file :: "feedback_entry list"

definition save_outcome_data :: "EnhancedOutcomeTracker \<Rightarrow> EnhancedOutcomeTracker" where
  "save_outcome_data t = t\<lparr>outcome_data_file := outcome_data t\<rparr>"

definition save_enhanced_rewards :: "EnhancedOutcomeTracker \<Rightarrow> EnhancedOutcomeTracker" where
  "save_enhanced_rewards t = t\<lparr>enhanced_rewards_file := enhanced_rewards t\<rparr>"

definition should_capture_outcome :: "datetime \<Rightarrow> OutcomeData \<Rightarrow> bool" where
  "should_capture_outcome now_t outcome =
     (case tracking_end outcome of None \<Rightarrow> False | Some e \<Rightarrow> now_t \<ge> e)"

text \<open>The four values \<^verbatim>\<open>_capture_mock_outcome_data\<close> draws with \<^verbatim>\<open>np.random.normal\<close>.\<close>

record mock_draws =
  accuracy_draw :: real
  sales_before_draw :: real
  sales_after_draw :: real
  cost_draw :: real

text \<open>
  Subtracting \<^verbatim>\<open>None\<close> from a datetime raises \<^verbatim>\<open>TypeError\<close>; the function catches it
  and returns \<^verbatim>\<open>False\<close> before it has written to the record.
\<close>

definition capture_mock_outcome_data ::
  "datetime \<Rightarrow> mock_draws \<Rightarrow> OutcomeData \<Rightarrow> bool \<times> OutcomeData" where
  "capture_mock_outcome_data now_t d outcome =
     (let base_accuracy = max 0.2 (min 1 (0.7 + accuracy_draw d));
          daily_sales_before = 15 + sales_before_draw d;
          daily_sales_after = daily_sales_before * (1.2 + sales_after_draw d)
      in case (tracking_end outcome, tracking_start outcome) of
           (Some e, Some s) \<Rightarrow>
             let period_days = timedelta_days e s;
                 sales_before = max 0 (daily_sales_before * (real_of_int period_days / 2));
                 sales_after = max 0 (daily_sales_after * (real_of_int period_days / 2));
                 cost_variation = 1 + cost_draw d;
                 cost = restock_cost outcome * cost_variation;
                 revenue_per_unit = 20;
                 units_sold = min (real_of_int (restock_quantity outcome)) sales_after;
                 total_revenue = units_sold * revenue_per_unit;
                 profit = total_revenue - cost
             in (True,
                 outcome\<lparr> actual_sales_before := sales_before,
                          actual_sales_after := sales_after,
                          actual_cost := cost,
                          actual_profit := profit,
                          actual_roi := (if cost > 0 then (profit / cost) * 100 else 0),
                          sell_through_rate :=
                            (if restock_quantity outcome > 0
                             then (units_sold / real_of_int (restock_quantity outcome)) * 100
                             else 0),
                          status := ''completed'',
                          outcome_captured_at := Some now_t \<rparr>)
         | _ \<Rightarrow> (False, outcome))"

record sales_data =
  sales_before :: real
  sales_after :: real
  total_revenue :: real
  units_sold :: int

record cost_data =
  cd_actual_cost :: real
  cost_variance :: real

definition get_shopify_sales_data :: "string \<Rightarrow> datetime option \<Rightarrow> datetime option \<Rightarrow> sales_data" where
  "get_shopify_sales_data pid start_date end_date =
     \<lparr> sales_before = 150, sales_after = 280, total_revenue = 430, units_sold = 25 \<rparr>"

definition get_quickbooks_cost_data :: "string \<Rightarrow> datetime \<Rightarrow> datetime option \<Rightarrow> cost_data" where
  "get_quickbooks_cost_data pid start_date end_date =
     \<lparr> cd_actual_cost = 250, cost_variance = 0.05 \<rparr>"

definition capture_real_outcome_data :: "datetime \<Rightarrow> OutcomeData \<Rightarrow> bool \<times> OutcomeData" where
  "capture_real_outcome_data now_t outcome =
     (let sd = get_shopify_sales_data (product_id outcome) (tracking_start outcome)
                 (tracking_end outcome);
          cd = get_quickbooks_cost_data (product_id outcome) (approved_at outcome)
                 (tracking_end outcome);
          cost = cd_actual_cost cd;
          profit = total_revenue sd - cost
      in (True,
          outcome\<lparr> actual_sales_before := sales_before sd,
                   actual_sales_after := sales_after sd,
                   actual_cost := cost,
                   actual_profit := profit,
                   actual_roi := (if cost > 0 then (profit / cost) * 100 else 0),
                   sell_through_rate :=
                     (if restock_quantity outcome > 0
                      then (real_of_int (units_sold sd) / real_of_int (restock_quantity outcome)) * 100
                      else 0),
                   status := ''completed'',
                   outcome_captured_at := Some now_t \<rparr>))"

definition capture_outcome_data ::
  "bool \<Rightarrow> datetime \<Rightarrow> mock_draws \<Rightarrow> OutcomeData \<Rightarrow> bool \<times> OutcomeData" where
  "capture_outcome_data mock now_t d outcome =
     (if mock then capture_mock_outcome_data now_t d outcome
      else capture_real_outcome_data now_t outcome)"

text \<open>
  The loop of \<^verbatim>\<open>capture_business_outcomes\<close>: the record at position \<open>i\<close> of the list
  gets the draws \<open>draws i\<close>.  The result is the number of captured records and the list
  after the loop.
\<close>

fun capture_loop ::
  "bool \<Rightarrow> datetime \<Rightarrow> (nat \<Rightarrow> mock_draws) \<Rightarrow> nat \<Rightarrow> OutcomeData list \<Rightarrow> nat \<times> OutcomeData list" where
  "capture_loop mock now_t draws i [] = (0, [])"
| "capture_loop mock now_t draws i (outcome # rest) =
     (let (n, rest') = capture_loop mock now_t draws (Suc i) rest
      in if status outcome = ''tracking'' \<and> should_capture_outcome now_t outcome
         then (let (ok, outcome') = capture_outcome_data mock now_t (draws i) outcome
               in ((if ok then n + 1 else n), outcome' # rest'))
         else (n, outcome # rest'))"

definition capture_business_outcomes ::
  "datetime \<Rightarrow> (nat \<Rightarrow> mock_draws) \<Rightarrow> EnhancedOutcomeTracker \<Rightarrow> nat \<times> EnhancedOutcomeTracker" where
  "capture_business_outcomes now_t draws t =
     (let (captured_count, outcomes') =
            capture_loop (mock_mode t) now_t draws 0 (outcome_data t);
          t' = t\<lparr>outcome_data := outcomes'\<rparr>
      in (captured_count, if captured_count > 0 then save_outcome_data t' else t'))"

definition calculate_roi_accuracy :: "real \<Rightarrow> real \<Rightarrow> real" where
  "calculate_roi_accuracy predicted actual =
     (if predicted = 0 \<and> actual = 0 then 1
      else let err = \<bar>predicted - actual\<bar>;
               max_error = max (max \<bar>predicted\<bar> \<bar>actual\<bar>) 10
           in max 0 (1 - err / max_error))"

definition outcome_confidence_score :: "OutcomeData \<Rightarrow> real" where
  "outcome_confidence_score outcome =
     np_mean
       ([calculate_roi_accuracy (predicted_roi outcome) (actual_roi outcome)]
        @ [if sell_through_rate outcome \<ge> 80 then 1
           else if sell_through_rate outcome \<ge> 50 then 0.7 else 0.3]
        @ (case user_satisfaction outcome of
             Some sat \<Rightarrow> [(sat - 1) / 4]
           | None \<Rightarrow> [])
        @ [if actual_profit outcome > 0 then 1
           else if actual_profit outcome > - 50 then 0.5 else 0])"

definition calculate_enhanced_reward :: "datetime \<Rightarrow> OutcomeData \<Rightarrow> EnhancedReward" where
  "calculate_enhanced_reward now_t outcome =
     (let base = actual_profit outcome / 100;
          roi_accuracy = calculate_roi_accuracy (predicted_roi outcome) (actual_roi outcome);
          roi_reward = (actual_roi outcome / 100) * roi_accuracy;
          bonus = (case user_satisfaction outcome of
                     Some sat \<Rightarrow> ((sat - 3) / 2) * 0.2
                   | None \<Rightarrow> 0);
          roi_error = \<bar>predicted_roi outcome - actual_roi outcome\<bar>;
          penalty = - min (roi_error / 100) 0.5
      in \<lparr> task_id = OutcomeData.task_id outcome,
           base_reward = base,
           actual_roi_reward = roi_reward,
           user_feedback_bonus = bonus,
           accuracy_penalty = penalty,
           total_reward = base + roi_reward + bonus + penalty,
           confidence_score = outcome_confidence_score outcome,
           created_at = now_t \<rparr>)"

text \<open>
  The loop of \<^verbatim>\<open>generate_enhanced_rewards\<close>, threading \<^verbatim>\<open>self.enhanced_rewards\<close> and
  \<^verbatim>\<open>new_rewards\<close>; both grow at the end.
\<close>

fun reward_loop ::
  "datetime \<Rightarrow> OutcomeData list \<Rightarrow> EnhancedReward list \<Rightarrow> EnhancedReward list
     \<Rightarrow> EnhancedReward list \<times> EnhancedReward list" where
  "reward_loop now_t [] rewards new_rewards = (new_rewards, rewards)"
| "reward_loop now_t (outcome # rest) rewards new_rewards =
     (if status outcome = ''completed'' \<and> outcome_captured_at outcome \<noteq> None
      then (case find (\<lambda>r. task_id r = OutcomeData.task_id outcome) rewards of
              Some existing \<Rightarrow> reward_loop now_t rest rewards new_rewards
            | None \<Rightarrow>
                let reward = calculate_enhanced_reward now_t outcome
                in reward_loop now_t rest (rewards @ [reward]) (new_rewards @ [reward]))
      else reward_loop now_t rest rewards new_rewards)"

definition generate_enhanced_rewards ::
  "datetime \<Rightarrow> EnhancedOutcomeTracker \<Rightarrow> EnhancedReward list \<times> EnhancedOutcomeTracker" where
  "generate_enhanced_rewards now_t t =
     (let (new_rewards, rewards') = reward_loop now_t (outcome_data t) (enhanced_rewards t) [];
          t' = t\<lparr>enhanced_rewards := rewards'\<rparr>
      in (new_rewards, if new_rewards \<noteq> [] then save_enhanced_rewards t' else t'))"

text \<open>
  \<^verbatim>\<open>collect_user_feedback\<close> writes to the first record with the task id.
\<close>

fun update_first :: "('a \<Rightarrow> bool) \<Rightarrow> ('a \<Rightarrow> 'a) \<Rightarrow> 'a list \<Rightarrow> 'a list" where
  "update_first P f [] = []"
| "update_first P f (x # xs) = (if P x then f x # xs else x # update_first P f xs)"

definition save_user_feedback ::
  "datetime \<Rightarrow> string \<Rightarrow> string \<Rightarrow> real \<Rightarrow> EnhancedOutcomeTracker \<Rightarrow> EnhancedOutcomeTracker" where
  "save_user_feedback now_t tid feedback satisfaction t =
     t\<lparr>user_feedback_file :=
         user_feedback_file t
         @ [\<lparr> fb_task_id = tid, fb_feedback = feedback, fb_satisfaction = satisfaction,
               fb_collected_at = now_t \<rparr>]\<rparr>"

definition collect_user_feedback ::
  "datetime \<Rightarrow> string \<Rightarrow> string \<Rightarrow> real \<Rightarrow> EnhancedOutcomeTracker
     \<Rightarrow> bool \<times> EnhancedOutcomeTracker" where
  "collect_user_feedback now_t tid feedback satisfaction t =
     (case find (\<lambda>outcome. OutcomeData.task_id outcome = tid) (outcome_data t) of
        None \<Rightarrow> (False, t)
      | Some outcome \<Rightarrow>
          let t1 = t\<lparr>outcome_data :=
                       update_first (\<lambda>outcome. OutcomeData.task_id outcome = tid)
                         (\<lambda>outcome. outcome\<lparr> user_feedback := Some feedback,
                                              user_satisfaction := Some satisfaction,
                                              feedback_collected_at := Some now_t \<rparr>)
                         (outcome_data t)\<rparr>;
              t2 = save_user_feedback now_t tid feedback satisfaction t1
          in (True, save_outcome_data t2))"

text \<open>The guard of the loop in \<^verbatim>\<open>generate_enhanced_rewards\<close>.\<close>

definition reward_due :: "OutcomeData \<Rightarrow> bool" where
  "reward_due outcome = (status outcome = ''completed'' \<and> outcome_captured_at outcome \<noteq> None)"

text \<open>One pass of outcome capture followed by reward generation.\<close>

definition capture_and_reward ::
  "datetime \<Rightarrow> (nat \<Rightarrow> mock_draws) \<Rightarrow> datetime \<Rightarrow> EnhancedOutcomeTracker \<Rightarrow> EnhancedOutcomeTracker" where
  "capture_and_reward now_t draws reward_t t =
     snd (generate_enhanced_rewards reward_t (snd (capture_business_outcomes now_t draws t)))"





text \<open>Records used to exercise the tracker: a tracking window that closed at time 0.\<close>

definition sample_outcome :: OutcomeData where
  "sample_outcome =
     \<lparr> OutcomeData.task_id = ''task-1'',
       recommendation_id = ''task-1'',
       approved_at = - 30 * day_us,
       product_id = ''prod-default-product'',
       product_name = ''Default Product'',
       predicted_roi = 25,
       predicted_profit = 500,
       restock_quantity = 100,
       restock_cost = 1000,
       actual_sales_before = 0,
       actual_sales_after = 0,
       actual_cost = 0,
       actual_roi = 0,
       actual_profit = 0,
       sell_through_rate = 0,
       tracking_start = Some (- 30 * day_us),
       tracking_end = Some 0,
       outcome_captured_at = None,
       user_feedback = None,
       user_satisfaction = None,
       feedback_collected_at = None,
       status = ''tracking'' \<rparr>"

definition sample_draws :: mock_draws where
  "sample_draws =
     \<lparr> accuracy_draw = 0, sales_before_draw = 0, sales_after_draw = 0, cost_draw = 0 \<rparr>"

definition sample_tracker :: EnhancedOutcomeTracker where
  "sample_tracker =
     \<lparr> tracking_period_days = 30,
       mock_mode = False,
       outcome_data = [sample_outcome],
       enhanced_rewards = [],
       outcome_data_file = [sample_outcome],
       enhanced_rewards_file = [],
       user_feedback_file = [] \<rparr>"

definition completed_outcome :: OutcomeData where
  "completed_outcome = snd (capture_real_outcome_data 0 sample_outcome)"


definition completed_tracker :: EnhancedOutcomeTracker where
  "completed_tracker = sample_tracker\<lparr>outcome_data := [completed_outcome]\<rparr>"

definition sample_draw_stream :: "nat \<Rightarrow> mock_draws" where
  "sample_draw_stream i = sample_draws"


section \<open>Retraining trigger (rl-agent/enhanced\_rl\_training.py)\<close>

record TrainingMetrics =
  episode :: int
  mean_reward :: real
  std_reward :: real
  mean_actual_roi :: real
  roi_accuracy :: real
  tm_user_satisfaction :: real
  tm_total_profit :: real
  training_time :: real
  model_version :: datetime









section \<open>Curriculum stages (rl-agent/enhanced\_training.py)\<close>

record TrainingConfig =
  algorithm :: string
  total_timesteps :: int
  learning_rate :: real
  batch_size :: int
  n_steps :: int
  n_epochs :: int
  gamma :: real
  gae_lambda :: real
  clip_range :: real
  entropy_coef :: real
  value_function_coef :: real
  target_kl :: "real option"
  normalize_advantage :: bool
  use_curriculum :: bool
  curriculum_stages :: int
  eval_freq :: int
  save_freq :: int
  n_eval_episodes :: int
  deterministic_eval :: bool

record CurriculumStage =
  name :: string
  timesteps :: int
  business_complexity :: real
  market_volatility :: real
  demand_uncertainty :: real
  supplier_reliability :: real
  cash_flow_pressure :: real
  description :: string

definition create_curriculum_stages :: "TrainingConfig \<Rightarrow> CurriculumStage list" where
  "create_curriculum_stages config =
     [\<lparr> name = ''Basic Operations'',
        timesteps = total_timesteps config div 4,
        business_complexity = 0.3,
        market_volatility = 0.2,
        demand_uncertainty = 0.2,
        supplier_reliability = 0.9,
        cash_flow_pressure = 0.2,
        description = ''Basic inventory management with stable conditions'' \<rparr>,
      \<lparr> name = ''Market Dynamics'',
        timesteps = total_timesteps config div 4,
        business_complexity = 0.5,
        market_volatility = 0.5,
        demand_uncertainty = 0.4,
        supplier_reliability = 0.8,
        cash_flow_pressure = 0.4,
        description = ''Introduce market volatility and demand fluctuations'' \<rparr>,
      \<lparr> name = ''Supply Chain Challenges'',
        timesteps = total_timesteps config div 4,
        business_complexity = 0.7,
        market_volatility = 0.6,
        demand_uncertainty = 0.6,
        supplier_reliability = 0.6,
        cash_flow_pressure = 0.6,
        description = ''Add supplier delays and cash flow constraints'' \<rparr>,
      \<lparr> name = ''Advanced Business Operations'',
        timesteps = total_timesteps config div 4,
        business_complexity = 1.0,
        market_volatility = 0.8,
        demand_uncertainty = 0.8,
        supplier_reliability = 0.5,
        cash_flow_pressure = 0.8,
        description = ''Full complexity with all business challenges'' \<rparr>]"

definition default_config :: TrainingConfig where
  "default_config =
     \<lparr> algorithm = ''PPO'', total_timesteps = 1000000, learning_rate = 3 / 10000,
       batch_size = 256, n_steps = 2048, n_epochs = 10, gamma = 0.99, gae_lambda = 0.95,
       clip_range = 0.2, entropy_coef = 0.01, value_function_coef = 0.5,
       target_kl = Some 0.01, normalize_advantage = True, use_curriculum = True,
       curriculum_stages = 4, eval_freq = 10000, save_freq = 50000, n_eval_episodes = 20,
       deterministic_eval = True \<rparr>"

text \<open>A sequence of numbers that never goes down (up) from one entry to the next.\<close>

fun non_decreasing :: "real list \<Rightarrow> bool" where
  "non_decreasing (x # y # rest) = (x \<le> y \<and> non_decreasing (y # rest))"
| "non_decreasing _ = True"

fun non_increasing :: "real list \<Rightarrow> bool" where
  "non_increasing (x # y # rest) = (x \<ge> y \<and> non_increasing (y # rest))"
| "non_increasing _ = True"

definition dials :: "CurriculumStage \<Rightarrow> real list" where
  "dials st = [business_complexity st, market_volatility st, demand_uncertainty st,
               supplier_reliability st, cash_flow_pressure st]"


section \<open>Business simulator (rl-agent/enhanced\_business\_env.py)\<close>

text \<open>
  The simulator's own season enumeration starts with winter; its constructors are written in
  lower case here, to keep them apart from those of the calculator.
\<close>

datatype MarketCondition = RECESSION | SLOW | NORMAL | GROWTH | BOOM

datatype EnvSeasonType = Winter | Spring | Summer | Fall

text \<open>
  The dictionary \<^verbatim>\<open>seasonality_factor\<close> of a product has the four seasons as its keys.
\<close>

record seasonality =
  winter :: real
  spring :: real
  summer :: real
  fall :: real

definition seasonal_lookup :: "seasonality \<Rightarrow> EnvSeasonType \<Rightarrow> real" where
  "seasonal_lookup f s =
     (case s of Winter \<Rightarrow> winter f | Spring \<Rightarrow> spring f | Summer \<Rightarrow> summer f | Fall \<Rightarrow> fall f)"

record ProductInfo =
  name :: string
  category :: string
  cost_price :: real
  selling_price :: real
  storage_cost_per_unit :: real
  base_demand :: real
  seasonality_factor :: seasonality
  demand_elasticity :: real
  lead_time :: int
  supplier_reliability :: real

text \<open>An order in transit: the dictionary appended to \<^verbatim>\<open>pending_orders[product_idx]\<close>.\<close>

record PendingOrder =
  quantity :: int
  days_remaining :: int
  cost :: real

text \<open>
  The dictionary \<^verbatim>\<open>business_state\<close>.  The per-product lists are indexed by the product's
  position in the catalog; \<^verbatim>\<open>pending_orders\<close> maps that position to its list of orders.
\<close>

record business_state =
  inventory_levels :: "int list"
  days_since_restock :: "int list"
  cash_flow :: real
  accounts_receivable :: real
  accounts_payable :: real
  customer_satisfaction :: real
  supplier_relationships :: "real list"
  market_condition :: MarketCondition
  season :: EnvSeasonType
  demand_trends :: "real list"
  monthly_revenue :: real
  monthly_costs :: real
  inventory_turnover :: real
  pending_orders :: "PendingOrder list list"
  stockout_days :: "int list"
  total_profit :: real

record EnhancedBusinessEnv =
  max_days :: int
  products :: "ProductInfo list"
  bstate :: business_state
  env_days_remaining :: int

definition create_product_catalog :: "ProductInfo list" where
  "create_product_catalog =
     [\<lparr> name = ''Tech Pro Wireless Mouse'', category = ''Electronics'',
        cost_price = 25, selling_price = 49.99, storage_cost_per_unit = 0.75,
        base_demand = 45, seasonality_factor = \<lparr> winter = 1.3, spring = 1.0, summer = 0.8, fall = 1.1 \<rparr>,
        demand_elasticity = 1.2, lead_time = 7, supplier_reliability = 0.95 \<rparr>,
      \<lparr> name = ''Organic Garden Fertilizer'', category = ''Home & Garden'',
        cost_price = 18, selling_price = 34.99, storage_cost_per_unit = 1.2,
        base_demand = 30, seasonality_factor = \<lparr> winter = 0.4, spring = 1.8, summer = 1.5, fall = 0.8 \<rparr>,
        demand_elasticity = 0.9, lead_time = 14, supplier_reliability = 0.88 \<rparr>,
      \<lparr> name = ''Premium Athletic Socks'', category = ''Fashion'',
        cost_price = 8, selling_price = 19.99, storage_cost_per_unit = 0.25,
        base_demand = 60, seasonality_factor = \<lparr> winter = 1.1, spring = 1.2, summer = 1.0, fall = 0.9 \<rparr>,
        demand_elasticity = 1.5, lead_time = 10, supplier_reliability = 0.92 \<rparr>,
      \<lparr> name = ''Protein Powder Vanilla'', category = ''Health & Fitness'',
        cost_price = 32, selling_price = 59.99, storage_cost_per_unit = 1.0,
        base_demand = 25, seasonality_factor = \<lparr> winter = 1.1, spring = 1.3, summer = 1.0, fall = 0.8 \<rparr>,
        demand_elasticity = 1.1, lead_time = 12, supplier_reliability = 0.90 \<rparr>,
      \<lparr> name = ''Ergonomic Desk Organizer'', category = ''Office'',
        cost_price = 22, selling_price = 42.99, storage_cost_per_unit = 0.8,
        base_demand = 20, seasonality_factor = \<lparr> winter = 0.8, spring = 1.0, summer = 0.9, fall = 1.3 \<rparr>,
        demand_elasticity = 1.0, lead_time = 8, supplier_reliability = 0.94 \<rparr>]"

text \<open>The values \<^verbatim>\<open>_create_business_state\<close> draws with the module \<^verbatim>\<open>random\<close>.\<close>

record reset_draws =
  inventory_draws :: "int list"
  restock_day_draws :: "int list"
  cash_draw :: real
  receivable_draw :: real
  payable_draw :: real
  satisfaction_draw :: real
  relationship_draws :: "real list"
  market_draw :: MarketCondition
  season_draw :: EnvSeasonType
  trend_draws :: "real list"

text \<open>The ranges \<^verbatim>\<open>random.randint\<close> and \<^verbatim>\<open>random.uniform\<close> draw from, one draw per product.\<close>

definition valid_reset_draws :: "nat \<Rightarrow> reset_draws \<Rightarrow> bool" where
  "valid_reset_draws n r =
     (length (inventory_draws r) = n \<and> list_all (\<lambda>v. 50 \<le> v \<and> v \<le> 200) (inventory_draws r)
      \<and> length (restock_day_draws r) = n
      \<and> list_all (\<lambda>v. 0 \<le> v \<and> v \<le> 10) (restock_day_draws r)
      \<and> 20000 \<le> cash_draw r \<and> cash_draw r \<le> 50000
      \<and> 15000 \<le> receivable_draw r \<and> receivable_draw r \<le> 35000
      \<and> 8000 \<le> payable_draw r \<and> payable_draw r \<le> 20000
      \<and> 0.7 \<le> satisfaction_draw r \<and> satisfaction_draw r \<le> 0.9
      \<and> length (relationship_draws r) = n
      \<and> list_all (\<lambda>v. 0.8 \<le> v \<and> v \<le> 1) (relationship_draws r)
      \<and> length (trend_draws r) = n
      \<and> list_all (\<lambda>v. 0.8 \<le> v \<and> v \<le> 1.2) (trend_draws r))"

definition create_business_state :: "nat \<Rightarrow> reset_draws \<Rightarrow> business_state" where
  "create_business_state n r =
     \<lparr> inventory_levels = inventory_draws r,
       days_since_restock = restock_day_draws r,
       cash_flow = cash_draw r,
       accounts_receivable = receivable_draw r,
       accounts_payable = payable_draw r,
       customer_satisfaction = satisfaction_draw r,
       supplier_relationships = relationship_draws r,
       market_condition = market_draw r,
       season = season_draw r,
       demand_trends = trend_draws r,
       monthly_revenue = 0,
       monthly_costs = 0,
       inventory_turnover = 0,
       pending_orders = replicate n [],
       stockout_days = replicate n 0,
       total_profit = 0 \<rparr>"

definition reset :: "reset_draws \<Rightarrow> EnhancedBusinessEnv" where
  "reset r =
     \<lparr> max_days = 90,
       products = create_product_catalog,
       bstate = create_business_state (length create_product_catalog) r,
       env_days_remaining = 90 \<rparr>"

subsection \<open>Deliveries\<close>

definition age_order :: "PendingOrder \<Rightarrow> PendingOrder" where
  "age_order order = order\<lparr>days_remaining := days_remaining order - 1\<rparr>"

definition arrived :: "PendingOrder \<Rightarrow> bool" where
  "arrived order = (days_remaining order \<le> 0)"

text \<open>
  One product's turn in \<^verbatim>\<open>_process_supplier_deliveries\<close>: every order loses a day, the orders
  that reach zero are added to the inventory and collected, and each collected order is then
  taken out of the list with \<^verbatim>\<open>list.remove\<close>, which removes the first equal entry.  The
  result is the quantity delivered and the orders that stay.
\<close>

definition deliver_product :: "PendingOrder list \<Rightarrow> int \<times> PendingOrder list" where
  "deliver_product orders =
     (let aged = map age_order orders;
          delivered_orders = filter arrived aged
      in (sum_list (map quantity delivered_orders), fold remove1 delivered_orders aged))"

definition deliver_step :: "nat \<Rightarrow> business_state \<Rightarrow> business_state" where
  "deliver_step product_idx bs =
     (let (delivered, remaining) = deliver_product (pending_orders bs ! product_idx)
      in bs\<lparr> inventory_levels :=
                (inventory_levels bs)[product_idx := inventory_levels bs ! product_idx + delivered],
              pending_orders := (pending_orders bs)[product_idx := remaining] \<rparr>)"

definition process_supplier_deliveries :: "nat \<Rightarrow> business_state \<Rightarrow> business_state" where
  "process_supplier_deliveries num_products bs = fold deliver_step [0..<num_products] bs"

subsection \<open>Restocking\<close>

text \<open>\<^verbatim>\<open>list.index\<close>: the position of the first equal entry.\<close>

fun index_of :: "'a list \<Rightarrow> 'a \<Rightarrow> nat" where
  "index_of [] x = 0"
| "index_of (y # ys) x = (if y = x then 0 else Suc (index_of ys x))"

definition tier_quantity :: "int \<Rightarrow> int option" where
  "tier_quantity action_type =
     (if action_type = 1 then Some 50
      else if action_type = 2 then Some 100
      else if action_type = 3 then Some 200
      else None)"

text \<open>
  \<^verbatim>\<open>_execute_restock_action\<close>.  The cost price of every product of the catalog is positive,
  so the division is defined.
\<close>

definition execute_restock_action ::
  "ProductInfo list \<Rightarrow> ProductInfo \<Rightarrow> int \<Rightarrow> business_state \<Rightarrow> real \<times> business_state" where
  "execute_restock_action ps product action_type bs =
     (let product_idx = index_of ps product
      in case tier_quantity action_type of
           None \<Rightarrow> (0, bs)
         | Some tier \<Rightarrow>
             let affordable = py_int (cash_flow bs / cost_price product);
                 qty = (if cash_flow bs < real_of_int tier * cost_price product
                        then affordable else tier);
                 order_cost = real_of_int qty * cost_price product
             in if qty > 0
                then (order_cost,
                      bs\<lparr> pending_orders :=
                             (pending_orders bs)
                               [product_idx := pending_orders bs ! product_idx
                                  @ [\<lparr> quantity = qty, days_remaining = lead_time product,
                                        cost = order_cost \<rparr>]],
                           cash_flow := cash_flow bs - order_cost,
                           days_since_restock := (days_since_restock bs)[product_idx := 0] \<rparr>)
                else (order_cost, bs))"

definition restock_step ::
  "ProductInfo list \<Rightarrow> int list \<Rightarrow> nat \<Rightarrow> real \<times> business_state \<Rightarrow> real \<times> business_state" where
  "restock_step ps product_actions i acc =
     (let action_type = product_actions ! i
      in if action_type > 0
         then (let (restock_cost, bs') = execute_restock_action ps (ps ! i) action_type (snd acc)
               in (fst acc + restock_cost, bs'))
         else acc)"

definition restock_all ::
  "ProductInfo list \<Rightarrow> int list \<Rightarrow> business_state \<Rightarrow> real \<times> business_state" where
  "restock_all ps product_actions bs = fold (restock_step ps product_actions) [0..<length ps] (0, bs)"

definition execute_business_actions :: "int list \<Rightarrow> business_state \<Rightarrow> business_state" where
  "execute_business_actions business_actions bs =
     (let marketing_action = business_actions ! 0
      in if marketing_action = 1
         then (if cash_flow bs \<ge> 1000
               then bs\<lparr> cash_flow := cash_flow bs - 1000,
                         demand_trends := map (\<lambda>v. v * 1.1) (demand_trends bs) \<rparr>
               else bs)
         else if marketing_action = 2
         then (if cash_flow bs \<ge> 2500
               then bs\<lparr> cash_flow := cash_flow bs - 2500,
                         demand_trends := map (\<lambda>v. v * 1.2) (demand_trends bs) \<rparr>
               else bs)
         else bs)"

subsection \<open>Daily operations\<close>

definition get_market_factor :: "MarketCondition \<Rightarrow> real" where
  "get_market_factor c =
     (case c of RECESSION \<Rightarrow> 0.6 | SLOW \<Rightarrow> 0.8 | NORMAL \<Rightarrow> 1.0 | GROWTH \<Rightarrow> 1.2 | BOOM \<Rightarrow> 1.5)"

record daily_acc =
  acc_state :: business_state
  acc_revenue :: real
  acc_costs :: real
  acc_units_sold :: int
  acc_stockouts :: int

record daily_results =
  daily_revenue :: real
  daily_costs :: real
  daily_profit :: real
  daily_units_sold :: int
  stockouts :: int
  demand_fulfillment_rate :: real

text \<open>
  One product's turn in the loop of \<^verbatim>\<open>_simulate_daily_operations\<close>; \<open>noise i\<close> is the value
  drawn by \<^verbatim>\<open>np.random.normal(1.0, 0.15)\<close> for product \<open>i\<close>.
\<close>

definition simulate_product :: "ProductInfo list \<Rightarrow> (nat \<Rightarrow> real) \<Rightarrow> nat \<Rightarrow> daily_acc \<Rightarrow> daily_acc" where
  "simulate_product ps noise i acc =
     (let bs = acc_state acc;
          product = ps ! i;
          seasonal = seasonal_lookup (seasonality_factor product) (season bs);
          market = get_market_factor (market_condition bs);
          trend = demand_trends bs ! i;
          daily_demand = max 0 (py_int (base_demand product * seasonal * market * trend * noise i));
          current = inventory_levels bs ! i;
          sold = min daily_demand current;
          stockout = (daily_demand > sold \<and> current = 0);
          bs1 = bs\<lparr> inventory_levels := (inventory_levels bs)[i := current - sold] \<rparr>;
          bs2 = (if stockout
                 then bs1\<lparr> stockout_days := (stockout_days bs1)[i := stockout_days bs1 ! i + 1],
                            customer_satisfaction := customer_satisfaction bs1 * 0.98 \<rparr>
                 else bs1);
          bs3 = bs2\<lparr> days_since_restock :=
                        (days_since_restock bs2)[i := days_since_restock bs2 ! i + 1] \<rparr>
      in \<lparr> acc_state = bs3,
           acc_revenue = acc_revenue acc + real_of_int sold * selling_price product,
           acc_costs = acc_costs acc + real_of_int current * storage_cost_per_unit product,
           acc_units_sold = acc_units_sold acc + sold,
           acc_stockouts = (if stockout then acc_stockouts acc + 1 else acc_stockouts acc) \<rparr>)"

definition simulate_daily_operations ::
  "ProductInfo list \<Rightarrow> (nat \<Rightarrow> real) \<Rightarrow> business_state \<Rightarrow> daily_results \<times> business_state" where
  "simulate_daily_operations ps noise bs =
     (let acc = fold (simulate_product ps noise) [0..<length ps]
                  \<lparr> acc_state = bs, acc_revenue = 0, acc_costs = 0, acc_units_sold = 0,
                    acc_stockouts = 0 \<rparr>;
          bs1 = acc_state acc;
          bs2 = (if acc_stockouts acc = 0
                 then bs1\<lparr>customer_satisfaction := min 1 (customer_satisfaction bs1 * 1.001)\<rparr>
                 else bs1)
      in (\<lparr> daily_revenue = acc_revenue acc,
            daily_costs = acc_costs acc,
            daily_profit = acc_revenue acc - acc_costs acc,
            daily_units_sold = acc_units_sold acc,
            stockouts = acc_stockouts acc,
            demand_fulfillment_rate =
              real_of_int (acc_units_sold acc) / max (sum_list (map base_demand ps)) 1 \<rparr>,
          bs2))"

definition update_business_state ::
  "ProductInfo list \<Rightarrow> daily_results \<Rightarrow> business_state \<Rightarrow> business_state" where
  "update_business_state ps res bs =
     (let bs1 = bs\<lparr> monthly_revenue := monthly_revenue bs + daily_revenue res,
                     monthly_costs := monthly_costs bs + daily_costs res,
                     total_profit := total_profit bs + daily_profit res,
                     cash_flow := cash_flow bs + daily_profit res \<rparr>;
          avg_inventory_value =
            sum_list (map (\<lambda>i. real_of_int (inventory_levels bs1 ! i) * cost_price (ps ! i))
                        [0..<length ps])
      in if monthly_costs bs1 > 0 \<and> avg_inventory_value > 0
         then bs1\<lparr>inventory_turnover := monthly_costs bs1 / avg_inventory_value\<rparr>
         else bs1)"

subsection \<open>One step and a run of steps\<close>

record step_result =
  new_env :: EnhancedBusinessEnv
  restock_costs :: real
  results :: daily_results
  terminated :: bool
  truncated :: bool

text \<open>
  \<^verbatim>\<open>step\<close>: deliveries, then the restock actions product by product, then the business
  actions, the day's sales and the bookkeeping.  The reward, the observation vector and the
  episode log are computed from the state and do not write to it; they are left out.  An
  action vector shorter than the number of products plus one raises \<^verbatim>\<open>IndexError\<close>.
\<close>

definition step :: "(nat \<Rightarrow> real) \<Rightarrow> int list \<Rightarrow> EnhancedBusinessEnv \<Rightarrow> error + step_result" where
  "step noise action env =
     (let ps = products env;
          num_products = length ps;
          product_actions = take num_products action;
          business_actions = drop num_products action
      in if length action \<le> num_products then Inl IndexError
         else
           let bs1 = process_supplier_deliveries num_products (bstate env);
               (costs, bs2) = restock_all ps product_actions bs1;
               bs3 = execute_business_actions business_actions bs2;
               (res, bs4) = simulate_daily_operations ps noise bs3;
               bs5 = update_business_state ps res bs4;
               days = env_days_remaining env - 1
           in Inr \<lparr> new_env = env\<lparr>bstate := bs5, env_days_remaining := days\<rparr>,
                    restock_costs = costs,
                    results = res,
                    terminated = (days \<le> 0),
                    truncated = (cash_flow bs5 < - 50000) \<rparr>)"


text \<open>The states of an episode: the state after a reset and every state a step leads to.\<close>

inductive reachable :: "EnhancedBusinessEnv \<Rightarrow> bool" where
  reachable_reset:
    "valid_reset_draws (length create_product_catalog) r \<Longrightarrow> reachable (reset r)"
| reachable_step:
    "reachable env \<Longrightarrow> step noise action env = Inr res \<Longrightarrow> reachable (new_env res)"


text \<open>Every per-product list has one entry per product, and no product is listed twice.\<close>

definition well_formed :: "EnhancedBusinessEnv \<Rightarrow> bool" where
  "well_formed env =
     (let n = length (products env); bs = bstate env
      in distinct (products env)
         \<and> length (inventory_levels bs) = n \<and> length (pending_orders bs) = n
         \<and> length (days_since_restock bs) = n \<and> length (stockout_days bs) = n
         \<and> length (demand_trends bs) = n)"

text \<open>No inventory level is negative and every order in transit is for at least one unit.\<close>

definition inventory_ok :: "business_state \<Rightarrow> bool" where
  "inventory_ok bs =
     (list_all (\<lambda>level. 0 \<le> level) (inventory_levels bs)
      \<and> list_all (list_all (\<lambda>order. 0 < quantity order)) (pending_orders bs))"

text \<open>What one restock action can add to a product's orders: nothing, or one order.\<close>

definition placed :: "ProductInfo \<Rightarrow> PendingOrder list \<Rightarrow> bool" where
  "placed p ext =
     (case ext of
        [] \<Rightarrow> True
      | [order] \<Rightarrow> days_remaining order = lead_time p \<and> 0 < quantity order
                   \<and> cost order = real_of_int (quantity order) * cost_price p
                   \<and> (0 < cost_price p \<longrightarrow> quantity order \<le> 200)
      | _ \<Rightarrow> False)"

text \<open>A day-one state and inputs to exercise the simulator.\<close>

definition sample_reset :: reset_draws where
  "sample_reset =
     \<lparr> inventory_draws = [100, 100, 100, 100, 100],
       restock_day_draws = [0, 0, 0, 0, 0],
       cash_draw = 30000,
       receivable_draw = 20000,
       payable_draw = 10000,
       satisfaction_draw = 0.8,
       relationship_draws = [0.9, 0.9, 0.9, 0.9, 0.9],
       market_draw = NORMAL,
       season_draw = Spring,
       trend_draws = [1, 1, 1, 1, 1] \<rparr>"

definition sample_noise :: "nat \<Rightarrow> real" where
  "sample_noise i = 1"

definition sample_action :: "int list" where
  "sample_action = [3, 0, 0, 0, 0, 0, 0, 0]"

definition sample_day1 :: step_result where
  "sample_day1 = projr (step sample_noise sample_action (reset sample_reset))"




text \<open>The day-one state with 110 in cash.\<close>

definition poor_state :: business_state where
  "poor_state = (bstate (reset sample_reset))\<lparr>cash_flow := 110\<rparr>"


section \<open>Theorems: projected-ROI calculator\<close>

lemma calculate_roi_fields:
  assumes "calculate_roi inp calc0 pid qty w = Inr (res, calc')"
  shows "total_restock_cost res
           = real_of_int qty * ProductMetrics.cost_per_unit (fst (get_product_metrics inp calc0 pid))"
    and "expected_profit res = expected_revenue res - total_restock_cost res"
    and "projected_roi res = (if total_restock_cost res > 0
                              then (expected_profit res / total_restock_cost res) * 100 else 0)"
  using assms
  by (auto simp: calculate_roi_def Let_def split: prod.splits sum.splits option.splits)

text \<open>
  C1.  Whenever \<^verbatim>\<open>calculate_roi\<close> returns a result whose \<^verbatim>\<open>total_restock_cost\<close> is
  strictly positive, its \<^verbatim>\<open>projected_roi\<close> is exactly
  (expected\_revenue - total\_restock\_cost) / total\_restock\_cost * 100, computed from the
  fields of the same result; when \<^verbatim>\<open>total_restock_cost\<close> is 0 the \<^verbatim>\<open>projected_roi\<close>
  is 0.
\<close>

theorem calculate_roi_formula:
  assumes "calculate_roi inp calc0 pid qty w = Inr (res, calc')"
  shows "(total_restock_cost res > 0 \<longrightarrow>
            projected_roi res
              = (expected_revenue res - total_restock_cost res) / total_restock_cost res * 100)
         \<and> (total_restock_cost res = 0 \<longrightarrow> projected_roi res = 0)"
  using calculate_roi_fields(2,3)[OF assms] by simp

lemma scenario_run:
  "calculate_roi scenario_inputs scenario_calculator ''PROD-001'' 100 30
     = Inr (scenario_result, scenario_calculator)"
  by (simp add: calculate_roi_def get_product_metrics_def scenario_calculator_def
      scenario_metrics_def scenario_inputs_def scenario_result_def
      calculate_projected_demand_def get_seasonal_factor_def calculate_sell_through_rate_def
      calculate_stockout_probability_def calculate_confidence_score_def
      calculate_time_to_stockout_def py_int_def np_mean_def timedelta_days_def day_us_def Let_def)

theorem calculate_roi_formula_witness:
  "calculate_roi scenario_inputs scenario_calculator ''PROD-001'' 100 30
     = Inr (scenario_result, scenario_calculator)
   \<and> total_restock_cost scenario_result > 0
   \<and> projected_roi scenario_result
       = (expected_revenue scenario_result - total_restock_cost scenario_result)
           / total_restock_cost scenario_result * 100"
  using calculate_roi_formula[OF scenario_run] scenario_run
  by (simp add: scenario_result_def)

lemma clamp_bounds:
  fixes lo hi x :: real
  assumes "lo \<le> hi"
  shows "lo \<le> min hi (max lo x) \<and> min hi (max lo x) \<le> hi"
  using assms by (simp add: min_def max_def)

lemma sell_through_bounds:
  "0.3 \<le> calculate_sell_through_rate pm q d \<and> calculate_sell_through_rate pm q d \<le> 0.98"
  unfolding calculate_sell_through_rate_def Let_def
  by (rule clamp_bounds) simp

lemma stockout_bounds:
  "0.01 \<le> calculate_stockout_probability pm q w \<and> calculate_stockout_probability pm q w \<le> 0.95"
  unfolding calculate_stockout_probability_def Let_def
  by (rule clamp_bounds) simp

lemma timedelta_days_nonneg: "b \<le> a \<Longrightarrow> 0 \<le> timedelta_days a b"
  by (simp add: timedelta_days_def day_us_def pos_imp_zdiv_nonneg_iff)

lemma confidence_bounds:
  assumes "0 \<le> demand_volatility pm" "demand_volatility pm \<le> 1"
    and "0 \<le> historical_sell_through_rate pm" "historical_sell_through_rate pm \<le> 1"
    and "0 \<le> current_inventory pm" "last_updated pm \<le> now inp"
  shows "0 \<le> calculate_confidence_score inp pm d r \<and> calculate_confidence_score inp pm d r \<le> 1"
proof -
  let ?age = "real_of_int (timedelta_days (now inp) (last_updated pm))"
  let ?q = "max 0.5 (1 - ?age / 30)"
  let ?a = "min 1 (real_of_int (current_inventory pm) / max (d * 0.1) 1)"
  have age: "0 \<le> ?age" using timedelta_days_nonneg[OF assms(6)] by simp
  have q: "0 \<le> ?q" "?q \<le> 1" using age by auto
  have "0 \<le> real_of_int (current_inventory pm) / max (d * 0.1) 1"
    using assms(5) by (intro divide_nonneg_pos) auto
  then have a: "0 \<le> ?a" "?a \<le> 1" by auto
  have eq: "calculate_confidence_score inp pm d r
     = (?q + (1 - demand_volatility pm) + historical_sell_through_rate pm + 0.8 + ?a) / 5"
    by (simp add: calculate_confidence_score_def np_mean_def Let_def)
  show ?thesis unfolding eq using q a assms(1-4) by simp
qed

lemma calculate_roi_supporting:
  assumes "calculate_roi inp calc0 pid qty w = Inr (res, calc')"
  shows "\<exists>d. ROICalculationResult.sell_through_rate res
               = calculate_sell_through_rate (fst (get_product_metrics inp calc0 pid)) qty d
           \<and> ROICalculationResult.stockout_probability res
               = calculate_stockout_probability (fst (get_product_metrics inp calc0 pid)) qty w
           \<and> ROICalculationResult.confidence_score res
               = calculate_confidence_score inp (fst (get_product_metrics inp calc0 pid)) d
                   (calculate_sell_through_rate (fst (get_product_metrics inp calc0 pid)) qty d)"
  using assms
  by (auto simp: calculate_roi_def Let_def split: prod.splits sum.splits option.splits)

text \<open>
  C3 (as the code has it).  Every result of \<^verbatim>\<open>calculate_roi\<close> has its
  \<^verbatim>\<open>sell_through_rate\<close> in [0.3, 0.98] and its \<^verbatim>\<open>stockout_probability\<close> in [0.01, 0.95],
  whatever the product metrics.  The \<^verbatim>\<open>confidence_score\<close> is the unclamped mean of five
  factors; it lies in [0, 1] when the metrics are in range: \<^verbatim>\<open>demand_volatility\<close> and
  \<^verbatim>\<open>historical_sell_through_rate\<close> in [0, 1], \<^verbatim>\<open>current_inventory\<close> not negative and
  \<^verbatim>\<open>last_updated\<close> not in the future.
\<close>

theorem calculate_roi_ranges:
  assumes "calculate_roi inp calc0 pid qty w = Inr (res, calc')"
  shows "0.3 \<le> ROICalculationResult.sell_through_rate res
         \<and> ROICalculationResult.sell_through_rate res \<le> 0.98
         \<and> 0.01 \<le> ROICalculationResult.stockout_probability res
         \<and> ROICalculationResult.stockout_probability res \<le> 0.95
         \<and> (let pm = fst (get_product_metrics inp calc0 pid)
            in 0 \<le> demand_volatility pm \<and> demand_volatility pm \<le> 1
               \<and> 0 \<le> historical_sell_through_rate pm \<and> historical_sell_through_rate pm \<le> 1
               \<and> 0 \<le> current_inventory pm \<and> last_updated pm \<le> now inp
               \<longrightarrow> 0 \<le> ROICalculationResult.confidence_score res
                   \<and> ROICalculationResult.confidence_score res \<le> 1)"
proof -
  let ?pm = "fst (get_product_metrics inp calc0 pid)"
  from calculate_roi_supporting[OF assms] obtain d where
    r: "ROICalculationResult.sell_through_rate res = calculate_sell_through_rate ?pm qty d"
    and s: "ROICalculationResult.stockout_probability res
            = calculate_stockout_probability ?pm qty w"
    and cf: "ROICalculationResult.confidence_score res
             = calculate_confidence_score inp ?pm d (calculate_sell_through_rate ?pm qty d)"
    by blast
  show ?thesis
    unfolding r s cf Let_def
    using sell_through_bounds[of ?pm qty d] stockout_bounds[of ?pm qty w]
      confidence_bounds[of ?pm inp d]
    by blast
qed

theorem calculate_roi_ranges_witness:
  "calculate_roi scenario_inputs scenario_calculator ''PROD-001'' 100 30
     = Inr (scenario_result, scenario_calculator)
   \<and> ROICalculationResult.sell_through_rate scenario_result = 0.66
   \<and> ROICalculationResult.stockout_probability scenario_result = 0.95
   \<and> demand_volatility (fst (get_product_metrics scenario_inputs scenario_calculator ''PROD-001'')) = 0
   \<and> 0 \<le> ROICalculationResult.confidence_score scenario_result
   \<and> ROICalculationResult.confidence_score scenario_result \<le> 1"
  using calculate_roi_ranges[OF scenario_run] scenario_run
  by (simp add: scenario_result_def get_product_metrics_def scenario_calculator_def
      scenario_metrics_def scenario_inputs_def)

text \<open>
  With a standard deviation of daily demand of ten units the returned confidence score is
  negative: the claim that it lies in [0, 1] for any product metrics fails there.
\<close>

theorem calculate_roi_confidence_counterexample:
  "calculate_roi scenario_inputs volatile_calculator ''PROD-001'' 100 30
     = Inr (volatile_result, volatile_calculator)
   \<and> ROICalculationResult.confidence_score volatile_result < 0"
  by (simp add: calculate_roi_def get_product_metrics_def scenario_calculator_def
      volatile_calculator_def volatile_metrics_def volatile_result_def
      scenario_metrics_def scenario_inputs_def scenario_result_def
      calculate_projected_demand_def get_seasonal_factor_def calculate_sell_through_rate_def
      calculate_confidence_score_def
      calculate_time_to_stockout_def py_int_def np_mean_def timedelta_days_def day_us_def Let_def)


section \<open>Theorems: outcome tracker\<close>

lemma calculate_roi_accuracy_formula:
  "calculate_roi_accuracy p a = max 0 (1 - \<bar>p - a\<bar> / max (max \<bar>p\<bar> \<bar>a\<bar>) 10)"
  by (simp add: calculate_roi_accuracy_def Let_def)

lemma reward_loop_mono:
  "set new_rewards \<subseteq> set (fst (reward_loop now_t os rewards new_rewards))
   \<and> set rewards \<subseteq> set (snd (reward_loop now_t os rewards new_rewards))"
proof (induction os arbitrary: rewards new_rewards)
  case Nil
  show ?case by simp
next
  case (Cons outcome rest)
  show ?case
    using Cons.IH[where rewards = rewards and new_rewards = new_rewards]
      Cons.IH[where rewards = "rewards @ [calculate_enhanced_reward now_t outcome]"
                and new_rewards = "new_rewards @ [calculate_enhanced_reward now_t outcome]"]
    by (auto simp: Let_def split: option.splits)
qed

lemma reward_loop_first:
  assumes "find (\<lambda>x. OutcomeData.task_id x = k \<and> reward_due x) os = Some outcome"
    and "k \<notin> task_id ` set rewards"
  shows "calculate_enhanced_reward now_t outcome \<in> set (fst (reward_loop now_t os rewards new_rewards))
         \<and> calculate_enhanced_reward now_t outcome \<in> set (snd (reward_loop now_t os rewards new_rewards))"
  using assms
proof (induction os arbitrary: rewards new_rewards)
  case Nil
  then show ?case by simp
next
  case (Cons x rest)
  let ?r = "calculate_enhanced_reward now_t x"
  show ?case
  proof (cases "reward_due x")
    case False
    then have "find (\<lambda>x. OutcomeData.task_id x = k \<and> reward_due x) rest = Some outcome"
      using Cons.prems(1) by simp
    from Cons.IH[OF this Cons.prems(2)] False show ?thesis
      by (auto simp: reward_due_def)
  next
    case due: True
    show ?thesis
    proof (cases "OutcomeData.task_id x = k")
      case True
      then have eq: "outcome = x" using Cons.prems(1) due by simp
      have "find (\<lambda>r. task_id r = OutcomeData.task_id x) rewards = None"
        using Cons.prems(2) True by (force simp: find_None_iff image_iff)
      then show ?thesis
        using due eq reward_loop_mono[where new_rewards = "new_rewards @ [?r]" and now_t = now_t
            and os = rest and rewards = "rewards @ [?r]"]
        by (auto simp: reward_due_def Let_def)
    next
      case False
      then have f: "find (\<lambda>x. OutcomeData.task_id x = k \<and> reward_due x) rest = Some outcome"
        using Cons.prems(1) by simp
      have "k \<notin> task_id ` set (rewards @ [?r])"
        using Cons.prems(2) False by (auto simp: calculate_enhanced_reward_def Let_def)
      from Cons.IH[OF f this] Cons.IH[OF f Cons.prems(2)] show ?thesis
        by (auto simp: Let_def split: option.splits)
    qed
  qed
qed

text \<open>
  C4.  Take a completed record (status \<^verbatim>\<open>completed\<close> with its capture time set, as outcome
  capture leaves it) whose task id has no reward yet, the first such record of the list with
  that task id (every such record, when task ids are unique).  Then
  \<^verbatim>\<open>generate_enhanced_rewards\<close> returns and stores a reward for it with
  base\_reward = actual\_profit / 100,
  actual\_roi\_reward = (actual\_roi / 100) * max(0, 1 - |predicted - actual| / max(|predicted|, |actual|, 10)),
  user\_feedback\_bonus = ((satisfaction - 3) / 2) * 0.2 when a satisfaction exists and 0 otherwise,
  accuracy\_penalty = - min(|predicted - actual| / 100, 0.5),
  and total\_reward the sum of the four.
\<close>

theorem generate_enhanced_rewards_formula:
  assumes "find (\<lambda>x. OutcomeData.task_id x = OutcomeData.task_id outcome \<and> reward_due x)
             (outcome_data t) = Some outcome"
    and "OutcomeData.task_id outcome \<notin> task_id ` set (enhanced_rewards t)"
  shows "\<exists>r \<in> set (fst (generate_enhanced_rewards now_t t)).
           r \<in> set (enhanced_rewards (snd (generate_enhanced_rewards now_t t)))
         \<and> task_id r = OutcomeData.task_id outcome
         \<and> base_reward r = actual_profit outcome / 100
         \<and> actual_roi_reward r
             = (actual_roi outcome / 100)
               * max 0 (1 - \<bar>predicted_roi outcome - actual_roi outcome\<bar>
                            / max (max \<bar>predicted_roi outcome\<bar> \<bar>actual_roi outcome\<bar>) 10)
         \<and> user_feedback_bonus r
             = (case user_satisfaction outcome of
                  Some satisfaction \<Rightarrow> ((satisfaction - 3) / 2) * 0.2
                | None \<Rightarrow> 0)
         \<and> accuracy_penalty r = - min (\<bar>predicted_roi outcome - actual_roi outcome\<bar> / 100) 0.5
         \<and> total_reward r
             = base_reward r + actual_roi_reward r + user_feedback_bonus r + accuracy_penalty r"
proof -
  let ?r = "calculate_enhanced_reward now_t outcome"
  have "?r \<in> set (fst (generate_enhanced_rewards now_t t))"
    and "?r \<in> set (enhanced_rewards (snd (generate_enhanced_rewards now_t t)))"
    using reward_loop_first[OF assms, of now_t "[]"]
    by (auto simp: generate_enhanced_rewards_def save_enhanced_rewards_def Let_def
        split: prod.splits)
  moreover have "task_id ?r = OutcomeData.task_id outcome"
    "base_reward ?r = actual_profit outcome / 100"
    "actual_roi_reward ?r = (actual_roi outcome / 100)
               * max 0 (1 - \<bar>predicted_roi outcome - actual_roi outcome\<bar>
                            / max (max \<bar>predicted_roi outcome\<bar> \<bar>actual_roi outcome\<bar>) 10)"
    "user_feedback_bonus ?r = (case user_satisfaction outcome of
                  Some satisfaction \<Rightarrow> ((satisfaction - 3) / 2) * 0.2
                | None \<Rightarrow> 0)"
    "accuracy_penalty ?r = - min (\<bar>predicted_roi outcome - actual_roi outcome\<bar> / 100) 0.5"
    "total_reward ?r
             = base_reward ?r + actual_roi_reward ?r + user_feedback_bonus ?r + accuracy_penalty ?r"
    unfolding calculate_enhanced_reward_def Let_def calculate_roi_accuracy_formula
    by simp_all
  ultimately show ?thesis by blast
qed

theorem generate_enhanced_rewards_formula_witness:
  "find (\<lambda>x. OutcomeData.task_id x = OutcomeData.task_id completed_outcome \<and> reward_due x)
      (outcome_data completed_tracker) = Some completed_outcome
   \<and> OutcomeData.task_id completed_outcome \<notin> task_id ` set (enhanced_rewards completed_tracker)
   \<and> (\<exists>r \<in> set (fst (generate_enhanced_rewards 7 completed_tracker)).
         task_id r = ''task-1'' \<and> base_reward r = 1.8 \<and> accuracy_penalty r = - 0.47
         \<and> user_feedback_bonus r = 0
         \<and> total_reward r = base_reward r + actual_roi_reward r + user_feedback_bonus r
                              + accuracy_penalty r)"
proof -
  have h1: "find (\<lambda>x. OutcomeData.task_id x = OutcomeData.task_id completed_outcome \<and> reward_due x)
      (outcome_data completed_tracker) = Some completed_outcome"
    by (simp add: completed_tracker_def completed_outcome_def capture_real_outcome_data_def
        reward_due_def Let_def)
  have h2: "OutcomeData.task_id completed_outcome \<notin> task_id ` set (enhanced_rewards completed_tracker)"
    by (simp add: completed_tracker_def sample_tracker_def)
  have v: "actual_profit completed_outcome = 180" "actual_roi completed_outcome = 72"
    "predicted_roi completed_outcome = 25" "user_satisfaction completed_outcome = None"
    "OutcomeData.task_id completed_outcome = ''task-1''"
    by (simp_all add: completed_outcome_def capture_real_outcome_data_def sample_outcome_def
        get_shopify_sales_data_def get_quickbooks_cost_data_def Let_def)
  from generate_enhanced_rewards_formula[OF h1 h2, of 7] obtain r where
    "r \<in> set (fst (generate_enhanced_rewards 7 completed_tracker))"
    "task_id r = ''task-1''" "base_reward r = 1.8" "accuracy_penalty r = - 0.47"
    "user_feedback_bonus r = 0"
    "total_reward r = base_reward r + actual_roi_reward r + user_feedback_bonus r
                              + accuracy_penalty r"
    unfolding v by auto
  then show ?thesis using h1 h2 by blast
qed

lemma capture_loop_snd_Cons:
  "snd (capture_loop m now_t d j (x # rest))
     = (if status x = ''tracking'' \<and> should_capture_outcome now_t x
        then snd (capture_outcome_data m now_t (d j) x) else x)
       # snd (capture_loop m now_t d (Suc j) rest)"
  by (simp add: case_prod_beta Let_def)

lemma capture_loop_fst_Cons:
  "fst (capture_loop m now_t d j (x # rest))
     = (if status x = ''tracking'' \<and> should_capture_outcome now_t x
           \<and> fst (capture_outcome_data m now_t (d j) x)
        then fst (capture_loop m now_t d (Suc j) rest) + 1
        else fst (capture_loop m now_t d (Suc j) rest))"
  by (simp add: case_prod_beta Let_def)

lemma capture_loop_length: "length (snd (capture_loop m now_t d j os)) = length os"
  by (induction os arbitrary: j) (simp_all add: capture_loop_snd_Cons del: capture_loop.simps(2))

lemma capture_loop_nth:
  "i < length os \<Longrightarrow>
   snd (capture_loop m now_t d j os) ! i
     = (if status (os ! i) = ''tracking'' \<and> should_capture_outcome now_t (os ! i)
        then snd (capture_outcome_data m now_t (d (j + i)) (os ! i))
        else os ! i)"
proof (induction os arbitrary: i j)
  case Nil
  then show ?case by simp
next
  case (Cons x rest)
  show ?case
  proof (cases i)
    case 0
    then show ?thesis by (simp add: capture_loop_snd_Cons del: capture_loop.simps(2))
  next
    case (Suc k)
    then have "k < length rest" using Cons.prems by simp
    from Cons.IH[OF this, of "Suc j"] Suc show ?thesis
      by (simp add: capture_loop_snd_Cons del: capture_loop.simps(2))
  qed
qed

lemma capture_business_outcomes_data:
  "outcome_data (snd (capture_business_outcomes now_t d t))
     = snd (capture_loop (mock_mode t) now_t d 0 (outcome_data t))"
  "mock_mode (snd (capture_business_outcomes now_t d t)) = mock_mode t"
  "enhanced_rewards (snd (capture_business_outcomes now_t d t)) = enhanced_rewards t"
  by (auto simp: capture_business_outcomes_def save_outcome_data_def Let_def split: prod.splits)

lemma capture_mock_rate:
  assumes "tracking_start outcome = Some s" "tracking_end outcome = Some e"
    and "restock_quantity outcome > 0"
  shows "status (snd (capture_mock_outcome_data now_t d outcome)) = ''completed''"
    and "sell_through_rate (snd (capture_mock_outcome_data now_t d outcome))
         = min (real_of_int (restock_quantity outcome))
               (actual_sales_after (snd (capture_mock_outcome_data now_t d outcome)))
           / real_of_int (restock_quantity outcome) * 100"
    and "0 \<le> actual_sales_after (snd (capture_mock_outcome_data now_t d outcome))"
    and "restock_quantity (snd (capture_mock_outcome_data now_t d outcome)) = restock_quantity outcome"
  using assms by (simp_all add: capture_mock_outcome_data_def Let_def)

lemma capture_real_rate:
  assumes "restock_quantity outcome > 0"
  shows "status (snd (capture_real_outcome_data now_t outcome)) = ''completed''"
    and "sell_through_rate (snd (capture_real_outcome_data now_t outcome))
         = real_of_int (units_sold (get_shopify_sales_data (product_id outcome)
                          (tracking_start outcome) (tracking_end outcome)))
           / real_of_int (restock_quantity outcome) * 100"
  using assms by (simp_all add: capture_real_outcome_data_def Let_def)

lemma percent_bounds:
  fixes u q :: real
  assumes "0 < q" "0 \<le> u" "u \<le> q"
  shows "0 \<le> u / q * 100 \<and> u / q * 100 \<le> 100"
  using assms by (simp add: divide_le_eq)

text \<open>
  C6 (as the code has it).  When outcome capture completes a record with
  \<^verbatim>\<open>restock_quantity > 0\<close>, the stored \<^verbatim>\<open>sell_through_rate\<close> is a percentage:
  units\_sold / restock\_quantity * 100.  The units sold are
  min(restock\_quantity, actual\_sales\_after) in mock mode and the \<^verbatim>\<open>units_sold\<close> of the
  sales data otherwise.  The rate lies in [0, 100] when the units sold lie between 0 and the
  restock quantity, which is always so in mock mode.
\<close>

theorem capture_sell_through_rate:
  assumes "i < length (outcome_data t)"
    and "status (outcome_data t ! i) = ''tracking''"
    and "should_capture_outcome now_t (outcome_data t ! i)"
    and "mock_mode t \<longrightarrow> tracking_start (outcome_data t ! i) \<noteq> None"
    and "restock_quantity (outcome_data t ! i) > 0"
  shows "(let before = outcome_data t ! i;
              after = outcome_data (snd (capture_business_outcomes now_t draws t)) ! i;
              sold = (if mock_mode t
                      then min (real_of_int (restock_quantity before)) (actual_sales_after after)
                      else real_of_int (units_sold (get_shopify_sales_data (product_id before)
                             (tracking_start before) (tracking_end before))))
          in status after = ''completed''
             \<and> sell_through_rate after = sold / real_of_int (restock_quantity before) * 100
             \<and> (0 \<le> sold \<and> sold \<le> real_of_int (restock_quantity before)
                  \<longrightarrow> 0 \<le> sell_through_rate after \<and> sell_through_rate after \<le> 100)
             \<and> (mock_mode t \<longrightarrow> 0 \<le> sell_through_rate after \<and> sell_through_rate after \<le> 100))"
proof -
  let ?b = "outcome_data t ! i"
  let ?a = "outcome_data (snd (capture_business_outcomes now_t draws t)) ! i"
  have a: "?a = snd (capture_outcome_data (mock_mode t) now_t (draws i) ?b)"
    using capture_loop_nth[OF assms(1), of "mock_mode t" now_t draws 0] assms(2,3)
    by (simp add: capture_business_outcomes_data)
  have q: "0 < real_of_int (restock_quantity ?b)" using assms(5) by simp
  show ?thesis
  proof (cases "mock_mode t")
    case True
    obtain s e where se: "tracking_start ?b = Some s" "tracking_end ?b = Some e"
      using assms(3,4) True by (auto simp: should_capture_outcome_def split: option.splits)
    have a': "?a = snd (capture_mock_outcome_data now_t (draws i) ?b)"
      using a True by (simp add: capture_outcome_data_def)
    note m = capture_mock_rate[OF se assms(5), of now_t "draws i", folded a']
    have "0 \<le> min (real_of_int (restock_quantity ?b)) (actual_sales_after ?a)"
      using m(3) q by simp
    from percent_bounds[OF q this] m(1,2) True show ?thesis
      by (simp add: Let_def)
  next
    case False
    have a': "?a = snd (capture_real_outcome_data now_t ?b)"
      using a False by (simp add: capture_outcome_data_def)
    note m = capture_real_rate[OF assms(5), of now_t, folded a']
    show ?thesis
      using m False q percent_bounds[OF q]
      by (simp add: Let_def)
  qed
qed

theorem capture_sell_through_rate_witness:
  "0 < length (outcome_data sample_tracker)
   \<and> status (outcome_data sample_tracker ! 0) = ''tracking''
   \<and> should_capture_outcome 0 (outcome_data sample_tracker ! 0)
   \<and> restock_quantity (outcome_data sample_tracker ! 0) = 100
   \<and> \<not> mock_mode sample_tracker
   \<and> sell_through_rate
        (outcome_data (snd (capture_business_outcomes 0 sample_draw_stream sample_tracker)) ! 0)
      = 25 / 100 * 100"
  using capture_sell_through_rate[of 0 sample_tracker 0 sample_draw_stream]
  by (simp add: sample_tracker_def sample_outcome_def should_capture_outcome_def
      get_shopify_sales_data_def Let_def)

text \<open>
  A record with a restock quantity of 100 and 25 units sold gets the rate 25, not 0.25.
\<close>

theorem capture_sell_through_rate_counterexample:
  "restock_quantity (outcome_data sample_tracker ! 0) = 100
   \<and> units_sold (get_shopify_sales_data (product_id (outcome_data sample_tracker ! 0))
        (tracking_start (outcome_data sample_tracker ! 0))
        (tracking_end (outcome_data sample_tracker ! 0))) = 25
   \<and> sell_through_rate
        (outcome_data (snd (capture_business_outcomes 0 sample_draw_stream sample_tracker)) ! 0)
      = 25
   \<and> sell_through_rate
        (outcome_data (snd (capture_business_outcomes 0 sample_draw_stream sample_tracker)) ! 0)
      \<noteq> 25 / 100"
  by (simp add: capture_business_outcomes_def sample_tracker_def sample_outcome_def
      should_capture_outcome_def capture_outcome_data_def capture_real_outcome_data_def
      get_shopify_sales_data_def get_quickbooks_cost_data_def save_outcome_data_def Let_def)

lemma capture_outcome_data_cases:
  "(fst (capture_outcome_data m now_t d outcome)
      \<and> status (snd (capture_outcome_data m now_t d outcome)) = ''completed'')
   \<or> (\<forall>d'. capture_outcome_data m now_t d' outcome = (False, outcome))"
  by (auto simp: capture_outcome_data_def capture_mock_outcome_data_def
      capture_real_outcome_data_def Let_def split: option.splits)

lemma capture_loop_idem:
  "capture_loop m now_t d2 j (snd (capture_loop m now_t d1 i os))
     = (0, snd (capture_loop m now_t d1 i os))"
proof (induction os arbitrary: i j)
  case Nil
  show ?case by simp
next
  case (Cons x rest)
  let ?rest' = "snd (capture_loop m now_t d1 (Suc i) rest)"
  let ?x' = "(if status x = ''tracking'' \<and> should_capture_outcome now_t x
              then snd (capture_outcome_data m now_t (d1 i) x) else x)"
  have tail: "capture_loop m now_t d2 (Suc j) ?rest' = (0, ?rest')"
    by (rule Cons.IH)
  have head: "\<not> (status ?x' = ''tracking'' \<and> should_capture_outcome now_t ?x')
              \<or> capture_outcome_data m now_t (d2 j) ?x' = (False, ?x')"
    using capture_outcome_data_cases[of m now_t "d1 i" x] by auto
  have "capture_loop m now_t d2 j (?x' # ?rest') = (0, ?x' # ?rest')"
    using head tail by (auto simp: Let_def)
  then show ?case
    by (simp only: capture_loop_snd_Cons)
qed

lemma capture_business_outcomes_noop:
  assumes "outcome_data t' = snd (capture_loop (mock_mode t') now_t d1 i os)"
  shows "capture_business_outcomes now_t d2 t' = (0, t')"
  using capture_loop_idem[of "mock_mode t'" now_t d2 0 d1 i os]
  by (simp add: capture_business_outcomes_def assms[symmetric])

lemma reward_loop_appends:
  "\<exists>added. reward_loop now_t os rewards new_rewards = (new_rewards @ added, rewards @ added)
     \<and> distinct (map task_id added)
     \<and> task_id ` set added \<inter> task_id ` set rewards = {}
     \<and> (\<forall>outcome \<in> set os. reward_due outcome
            \<longrightarrow> OutcomeData.task_id outcome \<in> task_id ` set (rewards @ added))"
proof (induction os arbitrary: rewards new_rewards)
  case Nil
  show ?case by simp
next
  case (Cons x rest)
  let ?r = "calculate_enhanced_reward now_t x"
  have rid: "task_id ?r = OutcomeData.task_id x"
    by (simp add: calculate_enhanced_reward_def Let_def)
  show ?case
  proof (cases "reward_due x")
    case False
    from Cons.IH[of rewards new_rewards] False show ?thesis
      by (auto simp: reward_due_def)
  next
    case due: True
    show ?thesis
    proof (cases "find (\<lambda>r. task_id r = OutcomeData.task_id x) rewards")
      case (Some existing)
      then have "OutcomeData.task_id x \<in> task_id ` set rewards"
        by (auto simp: find_Some_iff image_iff) (metis nth_mem)
      with Cons.IH[of rewards new_rewards] Some due show ?thesis
        by (auto simp: reward_due_def)
    next
      case None
      then have fresh: "OutcomeData.task_id x \<notin> task_id ` set rewards"
        by (auto simp: find_None_iff)
      from Cons.IH[of "rewards @ [?r]" "new_rewards @ [?r]"] obtain added where
        a: "reward_loop now_t rest (rewards @ [?r]) (new_rewards @ [?r])
              = ((new_rewards @ [?r]) @ added, (rewards @ [?r]) @ added)"
        and d: "distinct (map task_id added)"
        and i: "task_id ` set added \<inter> task_id ` set (rewards @ [?r]) = {}"
        and c: "\<forall>outcome \<in> set rest. reward_due outcome
                 \<longrightarrow> OutcomeData.task_id outcome \<in> task_id ` set ((rewards @ [?r]) @ added)"
        by blast
      have eq: "reward_loop now_t (x # rest) rewards new_rewards
                  = (new_rewards @ (?r # added), rewards @ (?r # added))"
        using a None due by (simp add: reward_due_def Let_def)
      have d': "distinct (map task_id (?r # added))"
        using d i by auto
      have i': "task_id ` set (?r # added) \<inter> task_id ` set rewards = {}"
        using i fresh rid by auto
      have c': "\<forall>outcome \<in> set (x # rest). reward_due outcome
                 \<longrightarrow> OutcomeData.task_id outcome \<in> task_id ` set (rewards @ (?r # added))"
        using c rid by auto
      from eq d' i' c' show ?thesis by blast
    qed
  qed
qed

lemma reward_loop_noop:
  assumes "\<forall>outcome \<in> set os. reward_due outcome
             \<longrightarrow> OutcomeData.task_id outcome \<in> task_id ` set rewards"
  shows "reward_loop now_t os rewards new_rewards = (new_rewards, rewards)"
  using assms
proof (induction os)
  case Nil
  show ?case by simp
next
  case (Cons x rest)
  show ?case
  proof (cases "reward_due x")
    case False
    with Cons show ?thesis by (auto simp: reward_due_def)
  next
    case True
    then have "OutcomeData.task_id x \<in> task_id ` set rewards" using Cons.prems by simp
    then have "find (\<lambda>r. task_id r = OutcomeData.task_id x) rewards \<noteq> None"
      by (auto simp: find_None_iff)
    with Cons True show ?thesis by (auto simp: reward_due_def)
  qed
qed

lemma generate_enhanced_rewards_data:
  "outcome_data (snd (generate_enhanced_rewards g t)) = outcome_data t"
  "mock_mode (snd (generate_enhanced_rewards g t)) = mock_mode t"
  by (auto simp: generate_enhanced_rewards_def save_enhanced_rewards_def Let_def
      split: prod.splits)

lemma generate_enhanced_rewards_covers:
  "\<forall>outcome \<in> set (outcome_data t). reward_due outcome
     \<longrightarrow> OutcomeData.task_id outcome
           \<in> task_id ` set (enhanced_rewards (snd (generate_enhanced_rewards g t)))"
  using reward_loop_appends[of g "outcome_data t" "enhanced_rewards t" "[]"]
  by (auto simp: generate_enhanced_rewards_def save_enhanced_rewards_def Let_def)

lemma generate_enhanced_rewards_distinct:
  assumes "distinct (map task_id (enhanced_rewards t))"
  shows "distinct (map task_id (enhanced_rewards (snd (generate_enhanced_rewards g t))))"
proof -
  from reward_loop_appends[of g "outcome_data t" "enhanced_rewards t" "[]"] obtain added where
    eq: "reward_loop g (outcome_data t) (enhanced_rewards t) [] = (added, enhanced_rewards t @ added)"
    and d: "distinct (map task_id added)"
    and i: "task_id ` set added \<inter> task_id ` set (enhanced_rewards t) = {}"
    by auto
  have r: "enhanced_rewards (snd (generate_enhanced_rewards g t)) = enhanced_rewards t @ added"
    using eq by (simp add: generate_enhanced_rewards_def save_enhanced_rewards_def Let_def)
  have "set (map task_id (enhanced_rewards t)) \<inter> set (map task_id added) = {}"
    using i by auto
  then show ?thesis using assms d by (simp add: r)
qed

lemma generate_enhanced_rewards_noop:
  assumes "\<forall>outcome \<in> set (outcome_data t). reward_due outcome
             \<longrightarrow> OutcomeData.task_id outcome \<in> task_id ` set (enhanced_rewards t)"
  shows "generate_enhanced_rewards g t = ([], t)"
  using reward_loop_noop[OF assms, of g "[]"]
  by (simp add: generate_enhanced_rewards_def)

text \<open>
  C5.  Let one pass be \<^verbatim>\<open>capture_business_outcomes\<close> followed by
  \<^verbatim>\<open>generate_enhanced_rewards\<close>.  After one pass, a second capture at the same clock reading
  completes no record and leaves the tracker as it is, whatever the random draws; the reward
  generation that follows creates no reward and leaves the tracker as it is; so the second
  pass changes nothing, in the records, the rewards or the files.  Reward generation never
  gives a task id a second reward: if the reward task ids were distinct before, they are
  distinct afterwards.
\<close>

theorem capture_and_reward_idempotent:
  "(let t1 = capture_and_reward now_t d1 g1 t
    in capture_business_outcomes now_t d2 t1 = (0, t1)
       \<and> generate_enhanced_rewards g2 t1 = ([], t1)
       \<and> capture_and_reward now_t d2 g2 t1 = t1
       \<and> (distinct (map task_id (enhanced_rewards t))
            \<longrightarrow> distinct (map task_id (enhanced_rewards t1))))"
proof -
  let ?tc = "snd (capture_business_outcomes now_t d1 t)"
  let ?t1 = "capture_and_reward now_t d1 g1 t"
  have t1: "?t1 = snd (generate_enhanced_rewards g1 ?tc)"
    by (simp add: capture_and_reward_def)
  have od: "outcome_data ?t1 = snd (capture_loop (mock_mode ?t1) now_t d1 0 (outcome_data t))"
    by (simp add: t1 generate_enhanced_rewards_data capture_business_outcomes_data)
  have c: "capture_business_outcomes now_t d2 ?t1 = (0, ?t1)"
    by (rule capture_business_outcomes_noop[OF od])
  have "\<forall>outcome \<in> set (outcome_data ?t1). reward_due outcome
           \<longrightarrow> OutcomeData.task_id outcome \<in> task_id ` set (enhanced_rewards ?t1)"
    using generate_enhanced_rewards_covers[of ?tc g1]
    by (simp add: t1 generate_enhanced_rewards_data)
  then have g: "generate_enhanced_rewards g2 ?t1 = ([], ?t1)"
    by (rule generate_enhanced_rewards_noop)
  have both: "capture_and_reward now_t d2 g2 ?t1 = ?t1"
    using c g by (simp add: capture_and_reward_def)
  have d: "distinct (map task_id (enhanced_rewards t))
            \<longrightarrow> distinct (map task_id (enhanced_rewards ?t1))"
    using generate_enhanced_rewards_distinct[of ?tc g1]
    by (simp add: t1 capture_business_outcomes_data)
  show ?thesis using c g both d by (simp add: Let_def)
qed

theorem capture_and_reward_idempotent_witness:
  "distinct (map task_id (enhanced_rewards sample_tracker))
   \<and> map status (outcome_data (capture_and_reward 0 sample_draw_stream 7 sample_tracker))
       = [''completed'']
   \<and> capture_and_reward 0 sample_draw_stream 8
        (capture_and_reward 0 sample_draw_stream 7 sample_tracker)
       = capture_and_reward 0 sample_draw_stream 7 sample_tracker
   \<and> distinct (map task_id
        (enhanced_rewards (capture_and_reward 0 sample_draw_stream 7 sample_tracker)))"
proof -
  have s: "map status (outcome_data (capture_and_reward 0 sample_draw_stream 7 sample_tracker))
       = [''completed'']"
    by (simp add: capture_and_reward_def generate_enhanced_rewards_data
        capture_business_outcomes_data sample_tracker_def sample_outcome_def
        should_capture_outcome_def capture_outcome_data_def capture_real_outcome_data_def
        Let_def)
  have d: "distinct (map task_id (enhanced_rewards sample_tracker))"
    by (simp add: sample_tracker_def)
  show ?thesis
    using capture_and_reward_idempotent[of 0 sample_draw_stream 7 sample_tracker
        sample_draw_stream 8] s d
    by (simp add: Let_def)
qed

text \<open>
  C10.  For a task id that no record of the tracker carries, \<^verbatim>\<open>collect_user_feedback\<close>
  returns \<^verbatim>\<open>False\<close> and leaves the whole tracker as it was: no record is added, and the
  records, the rewards and the three files are unchanged.
\<close>

theorem collect_user_feedback_unknown_task:
  assumes "tid \<notin> OutcomeData.task_id ` set (outcome_data t)"
  shows "collect_user_feedback now_t tid feedback satisfaction t = (False, t)"
proof -
  have "find (\<lambda>outcome. OutcomeData.task_id outcome = tid) (outcome_data t) = None"
    using assms by (auto simp: find_None_iff)
  then show ?thesis by (simp add: collect_user_feedback_def)
qed

theorem collect_user_feedback_unknown_task_witness:
  "''task-2'' \<notin> OutcomeData.task_id ` set (outcome_data sample_tracker)
   \<and> collect_user_feedback 5 ''task-2'' ''good'' 4 sample_tracker = (False, sample_tracker)"
  using collect_user_feedback_unknown_task[of "''task-2''" sample_tracker 5 "''good''" 4]
  by (simp add: sample_tracker_def sample_outcome_def)


section \<open>Theorems: retraining trigger\<close>





section \<open>Theorems: curriculum stages\<close>

text \<open>
  C7 (as the code has it by design).  Across the four stages of \<^verbatim>\<open>create_curriculum_stages\<close>
  the dials business\_complexity, market\_volatility, demand\_uncertainty and
  cash\_flow\_pressure never go down, supplier\_reliability never goes up (0.9, 0.8, 0.6, 0.5:
  a less reliable supplier is the harder condition), and every dial lies in [0, 1].
\<close>

theorem curriculum_stages_shape:
  "(let stages = create_curriculum_stages config
    in non_decreasing (map business_complexity stages)
       \<and> non_decreasing (map market_volatility stages)
       \<and> non_decreasing (map demand_uncertainty stages)
       \<and> non_increasing (map CurriculumStage.supplier_reliability stages)
       \<and> non_decreasing (map cash_flow_pressure stages)
       \<and> (\<forall>st \<in> set stages. \<forall>d \<in> set (dials st). 0 \<le> d \<and> d \<le> 1))"
  by (simp add: create_curriculum_stages_def dials_def Let_def)

theorem curriculum_stages_shape_witness:
  "non_decreasing (map business_complexity (create_curriculum_stages default_config))
   \<and> non_increasing (map CurriculumStage.supplier_reliability
                        (create_curriculum_stages default_config))
   \<and> create_curriculum_stages default_config ! 3 \<in> set (create_curriculum_stages default_config)
   \<and> dials (create_curriculum_stages default_config ! 3) = [1, 0.8, 0.8, 0.5, 0.8]"
  using curriculum_stages_shape[of default_config]
  by (simp add: Let_def default_config_def create_curriculum_stages_def dials_def)

text \<open>
  The claim fails twice.  The supplier-reliability dial goes down from the first stage to the
  second.  And every stage gets \<^verbatim>\<open>total_timesteps // 4\<close> timesteps, which drops the remainder:
  a budget of 10 gives stages that add up to 8, against the repository's own test, which
  asserts that the stage timesteps add up to the budget.
\<close>

theorem curriculum_stages_counterexample:
  "\<not> non_decreasing (map CurriculumStage.supplier_reliability (create_curriculum_stages default_config))
   \<and> sum_list (map timesteps (create_curriculum_stages (default_config\<lparr>total_timesteps := 10\<rparr>)))
       \<noteq> total_timesteps (default_config\<lparr>total_timesteps := 10\<rparr>)"
  by (simp add: create_curriculum_stages_def default_config_def)


section \<open>Theorems: business simulator\<close>

lemma remove1_prefix_not_in:
  "x \<notin> set ys \<Longrightarrow> remove1 x (ys @ x # xs) = ys @ xs"
  by (induction ys) auto

lemma fold_remove1_filter:
  assumes "\<forall>y \<in> set ys. \<not> P y"
  shows "fold remove1 (filter P xs) (ys @ xs) = ys @ filter (\<lambda>x. \<not> P x) xs"
  using assms
proof (induction xs arbitrary: ys)
  case Nil
  show ?case by simp
next
  case (Cons x xs)
  show ?case
  proof (cases "P x")
    case True
    then have "x \<notin> set ys" using Cons.prems by auto
    then have "remove1 x (ys @ x # xs) = ys @ xs" by (rule remove1_prefix_not_in)
    with True Cons.IH[OF Cons.prems] show ?thesis by simp
  next
    case False
    then have "\<forall>y \<in> set (ys @ [x]). \<not> P y" using Cons.prems by auto
    from Cons.IH[OF this] False show ?thesis by simp
  qed
qed

lemma deliver_product_eq:
  "deliver_product orders
     = (sum_list (map quantity (filter arrived (map age_order orders))),
        filter (\<lambda>order. \<not> arrived order) (map age_order orders))"
  using fold_remove1_filter[of "[]" arrived "map age_order orders"]
  by (simp add: deliver_product_def Let_def)




lemma deliver_product_quantity_nonneg:
  assumes "\<forall>order \<in> set orders. 0 < quantity order"
  shows "0 \<le> fst (deliver_product orders)"
    and "\<forall>order \<in> set (snd (deliver_product orders)). 0 < quantity order"
proof -
  have "\<And>order. order \<in> set orders \<Longrightarrow> 0 \<le> quantity order"
    using assms by (simp add: less_imp_le)
  then show "0 \<le> fst (deliver_product orders)"
    by (auto simp: deliver_product_eq age_order_def intro!: sum_list_nonneg)
  show "\<forall>order \<in> set (snd (deliver_product orders)). 0 < quantity order"
    using assms by (auto simp: deliver_product_eq age_order_def)
qed

lemma process_supplier_deliveries_Suc:
  "process_supplier_deliveries (Suc n) bs = deliver_step n (process_supplier_deliveries n bs)"
  by (simp add: process_supplier_deliveries_def)

lemma deliver_step_frame:
  "length (inventory_levels (deliver_step i bs)) = length (inventory_levels bs)"
  "length (pending_orders (deliver_step i bs)) = length (pending_orders bs)"
  "cash_flow (deliver_step i bs) = cash_flow bs"
  "days_since_restock (deliver_step i bs) = days_since_restock bs"
  "stockout_days (deliver_step i bs) = stockout_days bs"
  "demand_trends (deliver_step i bs) = demand_trends bs"
  by (simp_all add: deliver_step_def case_prod_beta)

lemma process_supplier_deliveries_frame:
  "length (inventory_levels (process_supplier_deliveries n bs)) = length (inventory_levels bs)"
  "length (pending_orders (process_supplier_deliveries n bs)) = length (pending_orders bs)"
  "cash_flow (process_supplier_deliveries n bs) = cash_flow bs"
  "days_since_restock (process_supplier_deliveries n bs) = days_since_restock bs"
  "stockout_days (process_supplier_deliveries n bs) = stockout_days bs"
  "demand_trends (process_supplier_deliveries n bs) = demand_trends bs"
  by (induction n) (simp_all add: process_supplier_deliveries_Suc deliver_step_frame,
      simp_all add: process_supplier_deliveries_def)


lemma fold_invariant:
  assumes "\<And>i s. i \<in> set xs \<Longrightarrow> P s \<Longrightarrow> P (f i s)" and "P s"
  shows "P (fold f xs s)"
  using assms by (induction xs arbitrary: s) auto

lemma index_of_nth: "distinct ps \<Longrightarrow> i < length ps \<Longrightarrow> index_of ps (ps ! i) = i"
proof (induction ps arbitrary: i)
  case Nil
  then show ?case by simp
next
  case (Cons p ps)
  show ?case
  proof (cases i)
    case 0
    then show ?thesis by simp
  next
    case (Suc k)
    then have "ps ! k \<in> set ps" using Cons.prems by simp
    then have "p \<noteq> ps ! k" using Cons.prems by auto
    with Suc Cons show ?thesis by simp
  qed
qed

lemma py_int_times_le:
  fixes cash cp :: real
  assumes "0 < cp" "0 < py_int (cash / cp)"
  shows "real_of_int (py_int (cash / cp)) * cp \<le> cash"
proof -
  have nonneg: "0 \<le> cash / cp"
  proof (rule ccontr)
    assume "\<not> 0 \<le> cash / cp"
    then have "py_int (cash / cp) = \<lceil>cash / cp\<rceil>" "cash / cp < 0"
      by (simp_all add: py_int_def)
    then have "py_int (cash / cp) \<le> 0" by (simp add: ceiling_le_zero)
    with assms(2) show False by simp
  qed
  then have "py_int (cash / cp) = \<lfloor>cash / cp\<rfloor>" by (simp add: py_int_def)
  then have "real_of_int (py_int (cash / cp)) \<le> cash / cp" by simp
  then have "real_of_int (py_int (cash / cp)) * cp \<le> cash / cp * cp"
    using assms(1) by (simp only: mult_le_cancel_right_pos)
  then show ?thesis using assms(1) by simp
qed

lemma py_int_quantity_less_tier:
  fixes cash cp :: real
  assumes "0 < cp" "cash < real_of_int tier * cp" "0 \<le> tier"
  shows "py_int (cash / cp) \<le> tier"
proof -
  have "cash / cp < real_of_int tier" using assms(1,2) by (simp add: divide_less_eq)
  then show ?thesis
    using assms(3) by (auto simp: py_int_def floor_le_iff ceiling_le_iff)
qed

text \<open>What a restock action does to the state.\<close>

lemma execute_restock_action_effect:
  "\<exists>ext spent. snd (execute_restock_action ps p a bs)
       = (if ext = [] then bs
          else bs\<lparr> pending_orders :=
                      (pending_orders bs)[index_of ps p := pending_orders bs ! index_of ps p @ ext],
                    cash_flow := cash_flow bs - spent,
                    days_since_restock := (days_since_restock bs)[index_of ps p := 0] \<rparr>)
     \<and> (ext = [] \<or> (\<exists>q. ext = [\<lparr> quantity = q, days_remaining = lead_time p,
                                   cost = real_of_int q * cost_price p \<rparr>]
                        \<and> 0 < q \<and> spent = real_of_int q * cost_price p
                        \<and> (0 < cost_price p \<longrightarrow> q \<le> 200 \<and> spent \<le> cash_flow bs)))"
proof (cases "tier_quantity a")
  case None
  then show ?thesis
    by (intro exI[of _ "[]"]) (simp add: execute_restock_action_def)
next
  case (Some tier)
  then have tier: "0 \<le> tier" "tier \<le> 200"
    by (auto simp: tier_quantity_def split: if_splits)
  define q where "q = (if cash_flow bs < real_of_int tier * cost_price p
                       then py_int (cash_flow bs / cost_price p) else tier)"
  show ?thesis
  proof (cases "0 < q")
    case False
    then show ?thesis
      using Some by (intro exI[of _ "[]"]) (simp add: execute_restock_action_def Let_def q_def)
  next
    case True
    have b: "0 < cost_price p \<longrightarrow> q \<le> 200 \<and> real_of_int q * cost_price p \<le> cash_flow bs"
    proof
      assume cp: "0 < cost_price p"
      show "q \<le> 200 \<and> real_of_int q * cost_price p \<le> cash_flow bs"
      proof (cases "cash_flow bs < real_of_int tier * cost_price p")
        case c: True
        then have "q = py_int (cash_flow bs / cost_price p)" by (simp add: q_def)
        with py_int_times_le[OF cp] py_int_quantity_less_tier[OF cp c tier(1)] True tier(2)
        show ?thesis by simp
      next
        case False
        then show ?thesis using tier by (simp add: q_def)
      qed
    qed
    show ?thesis
      using Some True b
      by (intro exI[of _ "[\<lparr> quantity = q, days_remaining = lead_time p,
                               cost = real_of_int q * cost_price p \<rparr>]"]
                exI[of _ "real_of_int q * cost_price p"])
         (simp add: execute_restock_action_def Let_def q_def)
  qed
qed


lemma execute_restock_action_pending:
  "\<exists>ext. placed p ext
     \<and> pending_orders (snd (execute_restock_action ps p a bs))
         = (if ext = [] then pending_orders bs
            else (pending_orders bs)[index_of ps p := pending_orders bs ! index_of ps p @ ext])"
proof -
  from execute_restock_action_effect[of ps p a bs] obtain ext spent where
    e: "snd (execute_restock_action ps p a bs)
       = (if ext = [] then bs
          else bs\<lparr> pending_orders :=
                      (pending_orders bs)[index_of ps p := pending_orders bs ! index_of ps p @ ext],
                    cash_flow := cash_flow bs - spent,
                    days_since_restock := (days_since_restock bs)[index_of ps p := 0] \<rparr>)"
    and x: "ext = [] \<or> (\<exists>q. ext = [\<lparr> quantity = q, days_remaining = lead_time p,
                                   cost = real_of_int q * cost_price p \<rparr>]
                        \<and> 0 < q \<and> spent = real_of_int q * cost_price p
                        \<and> (0 < cost_price p \<longrightarrow> q \<le> 200 \<and> spent \<le> cash_flow bs))"
    by blast
  have "placed p ext" using x by (auto simp: placed_def)
  moreover have "pending_orders (snd (execute_restock_action ps p a bs))
         = (if ext = [] then pending_orders bs
            else (pending_orders bs)[index_of ps p := pending_orders bs ! index_of ps p @ ext])"
    by (simp add: e)
  ultimately show ?thesis by blast
qed

lemma execute_restock_action_frame:
  "inventory_levels (snd (execute_restock_action ps p a bs)) = inventory_levels bs"
  "length (pending_orders (snd (execute_restock_action ps p a bs))) = length (pending_orders bs)"
  "length (days_since_restock (snd (execute_restock_action ps p a bs)))
     = length (days_since_restock bs)"
  "stockout_days (snd (execute_restock_action ps p a bs)) = stockout_days bs"
  "demand_trends (snd (execute_restock_action ps p a bs)) = demand_trends bs"
  using execute_restock_action_effect[of ps p a bs]
  by (auto split: if_splits)

lemma execute_restock_action_cash:
  assumes "0 < cost_price p"
  shows "cash_flow (snd (execute_restock_action ps p a bs)) \<le> cash_flow bs"
    and "cash_flow bs - cash_flow (snd (execute_restock_action ps p a bs)) \<le> max 0 (cash_flow bs)"
    and "0 \<le> cash_flow bs \<Longrightarrow> 0 \<le> cash_flow (snd (execute_restock_action ps p a bs))"
proof -
  from execute_restock_action_effect[of ps p a bs] obtain ext spent where
    e: "snd (execute_restock_action ps p a bs)
       = (if ext = [] then bs
          else bs\<lparr> pending_orders :=
                      (pending_orders bs)[index_of ps p := pending_orders bs ! index_of ps p @ ext],
                    cash_flow := cash_flow bs - spent,
                    days_since_restock := (days_since_restock bs)[index_of ps p := 0] \<rparr>)"
    and x: "ext = [] \<or> (\<exists>q. ext = [\<lparr> quantity = q, days_remaining = lead_time p,
                                   cost = real_of_int q * cost_price p \<rparr>]
                        \<and> 0 < q \<and> spent = real_of_int q * cost_price p
                        \<and> (0 < cost_price p \<longrightarrow> q \<le> 200 \<and> spent \<le> cash_flow bs))"
    by blast
  have s: "ext \<noteq> [] \<Longrightarrow> 0 \<le> spent \<and> spent \<le> cash_flow bs"
    using x assms by auto
  show "cash_flow (snd (execute_restock_action ps p a bs)) \<le> cash_flow bs"
    using s by (simp add: e)
  show "cash_flow bs - cash_flow (snd (execute_restock_action ps p a bs)) \<le> max 0 (cash_flow bs)"
    using s by (auto simp: e)
  show "0 \<le> cash_flow bs \<Longrightarrow> 0 \<le> cash_flow (snd (execute_restock_action ps p a bs))"
    using s by (auto simp: e)
qed

lemma restock_step_snd:
  "snd (restock_step ps pa k acc)
     = (if pa ! k > 0 then snd (execute_restock_action ps (ps ! k) (pa ! k) (snd acc))
        else snd acc)"
  by (simp add: restock_step_def Let_def case_prod_beta)

lemma restock_prefix_Suc:
  "fold (restock_step ps pa) [0..<Suc k] acc
     = restock_step ps pa k (fold (restock_step ps pa) [0..<k] acc)"
  by simp

lemma restock_prefix_frame:
  "inventory_levels (snd (fold (restock_step ps pa) xs acc)) = inventory_levels (snd acc)
   \<and> length (pending_orders (snd (fold (restock_step ps pa) xs acc)))
       = length (pending_orders (snd acc))
   \<and> length (days_since_restock (snd (fold (restock_step ps pa) xs acc)))
       = length (days_since_restock (snd acc))
   \<and> stockout_days (snd (fold (restock_step ps pa) xs acc)) = stockout_days (snd acc)
   \<and> demand_trends (snd (fold (restock_step ps pa) xs acc)) = demand_trends (snd acc)"
  by (induction xs arbitrary: acc) (simp_all add: restock_step_snd execute_restock_action_frame)


lemma list_all_update:
  "list_all P xs \<Longrightarrow> (i < length xs \<Longrightarrow> P v) \<Longrightarrow> list_all P (xs[i := v])"
proof (induction xs arbitrary: i)
  case Nil
  then show ?case by simp
next
  case (Cons x xs)
  then show ?case by (cases i) auto
qed

lemma list_all_nth: "list_all P xs \<Longrightarrow> i < length xs \<Longrightarrow> P (xs ! i)"
  by (simp add: list_all_length)

text \<open>Deliveries keep the inventory non-negative.\<close>

lemma deliver_step_ok:
  assumes "inventory_ok bs" "length (inventory_levels bs) = length (pending_orders bs)"
  shows "inventory_ok (deliver_step i bs)"
proof -
  have inv: "list_all (\<lambda>level. 0 \<le> level) (inventory_levels bs)"
    and ord: "list_all (list_all (\<lambda>order. 0 < quantity order)) (pending_orders bs)"
    using assms(1) by (simp_all add: inventory_ok_def)
  have a: "list_all (\<lambda>level. 0 \<le> level)
             ((inventory_levels bs)
                [i := inventory_levels bs ! i + fst (deliver_product (pending_orders bs ! i))])"
  proof (rule list_all_update[OF inv])
    assume i: "i < length (inventory_levels bs)"
    then have "list_all (\<lambda>order. 0 < quantity order) (pending_orders bs ! i)"
      using ord assms(2) by (simp add: list_all_nth)
    then have "0 \<le> fst (deliver_product (pending_orders bs ! i))"
      using deliver_product_quantity_nonneg(1)[of "pending_orders bs ! i"]
      by (simp add: list_all_iff)
    moreover have "0 \<le> inventory_levels bs ! i" using inv i by (simp add: list_all_nth)
    ultimately show "0 \<le> inventory_levels bs ! i + fst (deliver_product (pending_orders bs ! i))"
      by simp
  qed
  have b: "list_all (list_all (\<lambda>order. 0 < quantity order))
             ((pending_orders bs)[i := snd (deliver_product (pending_orders bs ! i))])"
  proof (rule list_all_update[OF ord])
    assume "i < length (pending_orders bs)"
    then have "list_all (\<lambda>order. 0 < quantity order) (pending_orders bs ! i)"
      using ord by (simp add: list_all_nth)
    then show "list_all (\<lambda>order. 0 < quantity order) (snd (deliver_product (pending_orders bs ! i)))"
      using deliver_product_quantity_nonneg(2)[of "pending_orders bs ! i"]
      by (simp add: list_all_iff)
  qed
  show ?thesis using a b by (simp add: inventory_ok_def deliver_step_def case_prod_beta)
qed

lemma process_supplier_deliveries_ok:
  assumes "inventory_ok bs" "length (inventory_levels bs) = length (pending_orders bs)"
  shows "inventory_ok (process_supplier_deliveries n bs)"
proof (induction n)
  case 0
  show ?case using assms(1) by (simp add: process_supplier_deliveries_def)
next
  case (Suc n)
  have "length (inventory_levels (process_supplier_deliveries n bs))
          = length (pending_orders (process_supplier_deliveries n bs))"
    using assms(2) by (simp add: process_supplier_deliveries_frame)
  from deliver_step_ok[OF Suc this] show ?case
    by (simp add: process_supplier_deliveries_Suc)
qed

text \<open>Restocking keeps it so.\<close>

lemma execute_restock_action_ok:
  assumes "inventory_ok bs"
  shows "inventory_ok (snd (execute_restock_action ps p a bs))"
proof -
  have ord: "list_all (list_all (\<lambda>order. 0 < quantity order)) (pending_orders bs)"
    using assms by (simp add: inventory_ok_def)
  from execute_restock_action_pending[of p ps a bs] obtain ext where
    p: "placed p ext"
    and u: "pending_orders (snd (execute_restock_action ps p a bs))
         = (if ext = [] then pending_orders bs
            else (pending_orders bs)[index_of ps p := pending_orders bs ! index_of ps p @ ext])"
    by blast
  have e: "list_all (\<lambda>order. 0 < quantity order) ext"
    using p by (auto simp: placed_def split: list.splits)
  have "list_all (list_all (\<lambda>order. 0 < quantity order))
          ((pending_orders bs)[index_of ps p := pending_orders bs ! index_of ps p @ ext])"
    by (rule list_all_update[OF ord]) (use ord e in \<open>simp add: list_all_nth\<close>)
  then show ?thesis
    using assms ord by (simp add: inventory_ok_def u execute_restock_action_frame)
qed

lemma restock_all_ok:
  assumes "inventory_ok bs"
  shows "inventory_ok (snd (restock_all ps pa bs))"
  unfolding restock_all_def
  by (rule fold_invariant[where P = "\<lambda>acc :: real \<times> business_state. inventory_ok (snd acc)"])
     (simp_all add: restock_step_snd execute_restock_action_ok assms)

lemma restock_all_frame:
  "inventory_levels (snd (restock_all ps pa bs)) = inventory_levels bs"
  "length (pending_orders (snd (restock_all ps pa bs))) = length (pending_orders bs)"
  "length (days_since_restock (snd (restock_all ps pa bs))) = length (days_since_restock bs)"
  "stockout_days (snd (restock_all ps pa bs)) = stockout_days bs"
  "demand_trends (snd (restock_all ps pa bs)) = demand_trends bs"
  using restock_prefix_frame[of ps pa "[0..<length ps]" "(0, bs)"]
  by (simp_all add: restock_all_def)

lemma restock_all_cash:
  assumes "\<forall>p \<in> set ps. 0 < cost_price p"
  shows "cash_flow (snd (restock_all ps pa bs)) \<le> cash_flow bs
         \<and> (0 \<le> cash_flow bs \<longrightarrow> 0 \<le> cash_flow (snd (restock_all ps pa bs)))"
  unfolding restock_all_def
proof (rule fold_invariant[where P = "\<lambda>acc :: real \<times> business_state. cash_flow (snd acc) \<le> cash_flow bs
         \<and> (0 \<le> cash_flow bs \<longrightarrow> 0 \<le> cash_flow (snd acc))"])
  fix i and acc :: "real \<times> business_state"
  assume i: "i \<in> set [0..<length ps]"
    and a: "cash_flow (snd acc) \<le> cash_flow bs \<and> (0 \<le> cash_flow bs \<longrightarrow> 0 \<le> cash_flow (snd acc))"
  have cp: "0 < cost_price (ps ! i)" using assms i by simp
  show "cash_flow (snd (restock_step ps pa i acc)) \<le> cash_flow bs
         \<and> (0 \<le> cash_flow bs \<longrightarrow> 0 \<le> cash_flow (snd (restock_step ps pa i acc)))"
    using a execute_restock_action_cash(1,3)[OF cp, where ps = ps and a = "pa ! i" and bs = "snd acc"]
    by (auto simp: restock_step_snd)
next
  show "cash_flow (snd (0, bs)) \<le> cash_flow bs
         \<and> (0 \<le> cash_flow bs \<longrightarrow> 0 \<le> cash_flow (snd (0, bs)))"
    by simp
qed

text \<open>The business actions touch neither the inventory nor the orders.\<close>

lemma execute_business_actions_frame:
  "inventory_levels (execute_business_actions ba bs) = inventory_levels bs"
  "pending_orders (execute_business_actions ba bs) = pending_orders bs"
  "days_since_restock (execute_business_actions ba bs) = days_since_restock bs"
  "stockout_days (execute_business_actions ba bs) = stockout_days bs"
  "length (demand_trends (execute_business_actions ba bs)) = length (demand_trends bs)"
  by (simp_all add: execute_business_actions_def Let_def)

text \<open>The day's sales never take more than there is.\<close>

lemma simulate_product_frame:
  "pending_orders (acc_state (simulate_product ps noise i acc)) = pending_orders (acc_state acc)"
  "length (inventory_levels (acc_state (simulate_product ps noise i acc)))
     = length (inventory_levels (acc_state acc))"
  "length (days_since_restock (acc_state (simulate_product ps noise i acc)))
     = length (days_since_restock (acc_state acc))"
  "length (stockout_days (acc_state (simulate_product ps noise i acc)))
     = length (stockout_days (acc_state acc))"
  "demand_trends (acc_state (simulate_product ps noise i acc)) = demand_trends (acc_state acc)"
  by (simp_all add: simulate_product_def Let_def)

lemma simulate_product_inventory:
  "inventory_levels (acc_state (simulate_product ps noise i acc))
     = (inventory_levels (acc_state acc))
         [i := inventory_levels (acc_state acc) ! i
                 - min (max 0 (py_int (base_demand (ps ! i)
                                        * seasonal_lookup (seasonality_factor (ps ! i)) (season (acc_state acc))
                                        * get_market_factor (market_condition (acc_state acc))
                                        * (demand_trends (acc_state acc) ! i) * noise i)))
                       (inventory_levels (acc_state acc) ! i)]"
  by (simp add: simulate_product_def Let_def)

lemma simulate_product_ok:
  assumes "inventory_ok (acc_state acc)"
  shows "inventory_ok (acc_state (simulate_product ps noise i acc))"
proof -
  have inv: "list_all (\<lambda>level. 0 \<le> level) (inventory_levels (acc_state acc))"
    using assms by (simp add: inventory_ok_def)
  have "list_all (\<lambda>level. 0 \<le> level) (inventory_levels (acc_state (simulate_product ps noise i acc)))"
    unfolding simulate_product_inventory
  proof (rule list_all_update[OF inv])
    assume "i < length (inventory_levels (acc_state acc))"
    then have "0 \<le> inventory_levels (acc_state acc) ! i" using inv by (simp add: list_all_nth)
    then show "0 \<le> inventory_levels (acc_state acc) ! i
                 - min (max 0 (py_int (base_demand (ps ! i)
                                        * seasonal_lookup (seasonality_factor (ps ! i)) (season (acc_state acc))
                                        * get_market_factor (market_condition (acc_state acc))
                                        * (demand_trends (acc_state acc) ! i) * noise i)))
                       (inventory_levels (acc_state acc) ! i)"
      by simp
  qed
  then show ?thesis
    using assms by (simp add: inventory_ok_def simulate_product_frame)
qed

lemma simulate_daily_operations_state:
  "\<exists>acc :: daily_acc. pending_orders (acc_state acc) = pending_orders bs
     \<and> length (inventory_levels (acc_state acc)) = length (inventory_levels bs)
     \<and> length (days_since_restock (acc_state acc)) = length (days_since_restock bs)
     \<and> length (stockout_days (acc_state acc)) = length (stockout_days bs)
     \<and> demand_trends (acc_state acc) = demand_trends bs
     \<and> (inventory_ok bs \<longrightarrow> inventory_ok (acc_state acc))
     \<and> snd (simulate_daily_operations ps noise bs)
         = (if acc_stockouts acc = 0
            then (acc_state acc)\<lparr>customer_satisfaction :=
                                    min 1 (customer_satisfaction (acc_state acc) * 1.001)\<rparr>
            else acc_state acc)"
proof -
  let ?init = "\<lparr> acc_state = bs, acc_revenue = 0, acc_costs = 0, acc_units_sold = 0,
                  acc_stockouts = 0 \<rparr>"
  let ?acc = "fold (simulate_product ps noise) [0..<length ps] ?init"
  have "pending_orders (acc_state ?acc) = pending_orders bs
     \<and> length (inventory_levels (acc_state ?acc)) = length (inventory_levels bs)
     \<and> length (days_since_restock (acc_state ?acc)) = length (days_since_restock bs)
     \<and> length (stockout_days (acc_state ?acc)) = length (stockout_days bs)
     \<and> demand_trends (acc_state ?acc) = demand_trends bs
     \<and> (inventory_ok bs \<longrightarrow> inventory_ok (acc_state ?acc))"
    by (rule fold_invariant[where P = "\<lambda>acc :: daily_acc. pending_orders (acc_state acc) = pending_orders bs
     \<and> length (inventory_levels (acc_state acc)) = length (inventory_levels bs)
     \<and> length (days_since_restock (acc_state acc)) = length (days_since_restock bs)
     \<and> length (stockout_days (acc_state acc)) = length (stockout_days bs)
     \<and> demand_trends (acc_state acc) = demand_trends bs
     \<and> (inventory_ok bs \<longrightarrow> inventory_ok (acc_state acc))"])
       (simp_all add: simulate_product_frame simulate_product_ok)
  moreover have "snd (simulate_daily_operations ps noise bs)
         = (if acc_stockouts ?acc = 0
            then (acc_state ?acc)\<lparr>customer_satisfaction :=
                                    min 1 (customer_satisfaction (acc_state ?acc) * 1.001)\<rparr>
            else acc_state ?acc)"
    by (simp add: simulate_daily_operations_def Let_def)
  ultimately show ?thesis by blast
qed

lemma simulate_daily_operations_frame:
  "pending_orders (snd (simulate_daily_operations ps noise bs)) = pending_orders bs"
  "length (inventory_levels (snd (simulate_daily_operations ps noise bs)))
     = length (inventory_levels bs)"
  "length (days_since_restock (snd (simulate_daily_operations ps noise bs)))
     = length (days_since_restock bs)"
  "length (stockout_days (snd (simulate_daily_operations ps noise bs)))
     = length (stockout_days bs)"
  "demand_trends (snd (simulate_daily_operations ps noise bs)) = demand_trends bs"
  "inventory_ok bs \<Longrightarrow> inventory_ok (snd (simulate_daily_operations ps noise bs))"
proof -
  from simulate_daily_operations_state[where bs = bs and ps = ps and noise = noise]
  obtain acc :: daily_acc where
    a: "pending_orders (acc_state acc) = pending_orders bs"
      "length (inventory_levels (acc_state acc)) = length (inventory_levels bs)"
      "length (days_since_restock (acc_state acc)) = length (days_since_restock bs)"
      "length (stockout_days (acc_state acc)) = length (stockout_days bs)"
      "demand_trends (acc_state acc) = demand_trends bs"
      "inventory_ok bs \<longrightarrow> inventory_ok (acc_state acc)"
    and s: "snd (simulate_daily_operations ps noise bs)
         = (if acc_stockouts acc = 0
            then (acc_state acc)\<lparr>customer_satisfaction :=
                                    min 1 (customer_satisfaction (acc_state acc) * 1.001)\<rparr>
            else acc_state acc)"
    by blast
  show "pending_orders (snd (simulate_daily_operations ps noise bs)) = pending_orders bs"
    "length (inventory_levels (snd (simulate_daily_operations ps noise bs)))
     = length (inventory_levels bs)"
    "length (days_since_restock (snd (simulate_daily_operations ps noise bs)))
     = length (days_since_restock bs)"
    "length (stockout_days (snd (simulate_daily_operations ps noise bs)))
     = length (stockout_days bs)"
    "demand_trends (snd (simulate_daily_operations ps noise bs)) = demand_trends bs"
    using a by (simp_all add: s)
  show "inventory_ok bs \<Longrightarrow> inventory_ok (snd (simulate_daily_operations ps noise bs))"
    using a(6) by (simp add: s inventory_ok_def)
qed

lemma update_business_state_frame:
  "inventory_levels (update_business_state ps res bs) = inventory_levels bs"
  "pending_orders (update_business_state ps res bs) = pending_orders bs"
  "days_since_restock (update_business_state ps res bs) = days_since_restock bs"
  "stockout_days (update_business_state ps res bs) = stockout_days bs"
  "demand_trends (update_business_state ps res bs) = demand_trends bs"
  by (simp_all add: update_business_state_def Let_def)

lemma step_unfold:
  assumes "step noise action env = Inr res"
  shows "length (products env) < length action"
    and "new_env res
         = env\<lparr> bstate :=
                  (let ps = products env;
                       bs3 = execute_business_actions (drop (length ps) action)
                               (snd (restock_all ps (take (length ps) action)
                                      (process_supplier_deliveries (length ps) (bstate env))));
                       sim = simulate_daily_operations ps noise bs3
                   in update_business_state ps (fst sim) (snd sim)),
                env_days_remaining := env_days_remaining env - 1 \<rparr>"
  using assms
  by (auto simp: step_def Let_def case_prod_beta split: if_splits)

lemma step_Inr:
  assumes "length (products env) < length action"
  shows "step noise action env = Inr (projr (step noise action env))"
  using assms by (simp add: step_def Let_def case_prod_beta)

lemma step_products:
  assumes "step noise action env = Inr res"
  shows "products (new_env res) = products env"
  by (simp add: step_unfold(2)[OF assms])

lemma step_well_formed:
  assumes "well_formed env" "step noise action env = Inr res"
  shows "well_formed (new_env res)"
  using assms(1)
  by (simp add: step_unfold(2)[OF assms(2)] well_formed_def Let_def
      update_business_state_frame simulate_daily_operations_frame
      execute_business_actions_frame restock_all_frame process_supplier_deliveries_frame)

lemma step_inventory_ok:
  assumes "well_formed env" "inventory_ok (bstate env)" "step noise action env = Inr res"
  shows "inventory_ok (bstate (new_env res))"
proof -
  let ?ps = "products env"
  let ?bs1 = "process_supplier_deliveries (length ?ps) (bstate env)"
  let ?bs2 = "snd (restock_all ?ps (take (length ?ps) action) ?bs1)"
  let ?bs3 = "execute_business_actions (drop (length ?ps) action) ?bs2"
  let ?sim = "simulate_daily_operations ?ps noise ?bs3"
  have "length (inventory_levels (bstate env)) = length (pending_orders (bstate env))"
    using assms(1) by (simp add: well_formed_def Let_def)
  then have "inventory_ok ?bs1"
    using assms(2) by (rule process_supplier_deliveries_ok[rotated])
  then have "inventory_ok ?bs2" by (rule restock_all_ok)
  then have "inventory_ok ?bs3"
    by (simp add: inventory_ok_def execute_business_actions_frame)
  then have "inventory_ok (snd ?sim)" by (rule simulate_daily_operations_frame(6))
  then have "inventory_ok (update_business_state ?ps (fst ?sim) (snd ?sim))"
    by (simp add: inventory_ok_def update_business_state_frame)
  then show ?thesis
    by (simp add: step_unfold(2)[OF assms(3)] Let_def)
qed


text \<open>The states of an episode.\<close>

lemma catalog_facts:
  "distinct create_product_catalog"
  "length create_product_catalog = 5"
  "\<forall>p \<in> set create_product_catalog. 0 < cost_price p"
  by (simp_all add: create_product_catalog_def)

lemma reset_well_formed:
  assumes "valid_reset_draws (length create_product_catalog) r"
  shows "well_formed (reset r)" and "inventory_ok (bstate (reset r))"
proof -
  show "well_formed (reset r)"
    using assms catalog_facts(1)
    by (simp add: well_formed_def reset_def create_business_state_def valid_reset_draws_def
        Let_def)
  have "list_all (\<lambda>v. 50 \<le> v \<and> v \<le> 200) (inventory_draws r)"
    using assms by (simp add: valid_reset_draws_def)
  then have "list_all (\<lambda>level. 0 \<le> level) (inventory_draws r)"
    by (auto simp: list_all_iff)
  then show "inventory_ok (bstate (reset r))"
    by (simp add: inventory_ok_def reset_def create_business_state_def list_all_iff)
qed

lemma reachable_invariant:
  assumes "reachable env"
  shows "well_formed env \<and> inventory_ok (bstate env) \<and> products env = create_product_catalog"
  using assms
proof (induction rule: reachable.induct)
  case (reachable_reset r)
  then show ?case
    using reset_well_formed[of r] by (simp add: reset_def)
next
  case (reachable_step env noise action res)
  then show ?case
    using step_well_formed[of env noise action res] step_inventory_ok[of env noise action res]
      step_products[of noise action env res]
    by simp
qed

lemma affordable_quantity:
  fixes cash cp :: real
  assumes "0 < cp" "0 \<le> cash"
  shows "real_of_int (py_int (cash / cp)) * cp \<le> cash
         \<and> cash < real_of_int (py_int (cash / cp) + 1) * cp"
proof -
  have n: "0 \<le> cash / cp" using assms by simp
  then have e: "py_int (cash / cp) = \<lfloor>cash / cp\<rfloor>" by (simp add: py_int_def)
  have x: "cash / cp * cp = cash" using assms(1) by simp
  have "real_of_int \<lfloor>cash / cp\<rfloor> * cp \<le> cash / cp * cp"
    using assms(1) by (intro mult_right_mono) simp_all
  then have a: "real_of_int \<lfloor>cash / cp\<rfloor> * cp \<le> cash" by (simp only: x)
  have "cash / cp < real_of_int (\<lfloor>cash / cp\<rfloor> + 1)" by linarith
  then have "cash / cp * cp < real_of_int (\<lfloor>cash / cp\<rfloor> + 1) * cp"
    using assms(1) by (simp only: mult_less_cancel_right_pos)
  then have b: "cash < real_of_int (\<lfloor>cash / cp\<rfloor> + 1) * cp" by (simp only: x)
  show ?thesis using a b by (simp add: e)
qed

lemma execute_restock_action_reduced:
  assumes "tier_quantity a = Some tier" "cash_flow bs < real_of_int tier * cost_price p"
  shows "pending_orders (snd (execute_restock_action ps p a bs))
         = (if 0 < py_int (cash_flow bs / cost_price p)
            then (pending_orders bs)
                   [index_of ps p := pending_orders bs ! index_of ps p
                      @ [\<lparr> quantity = py_int (cash_flow bs / cost_price p),
                            days_remaining = lead_time p,
                            cost = real_of_int (py_int (cash_flow bs / cost_price p))
                                   * cost_price p \<rparr>]]
            else pending_orders bs)"
    and "cash_flow (snd (execute_restock_action ps p a bs))
         = (if 0 < py_int (cash_flow bs / cost_price p)
            then cash_flow bs - real_of_int (py_int (cash_flow bs / cost_price p)) * cost_price p
            else cash_flow bs)"
  using assms by (simp_all add: execute_restock_action_def Let_def)

text \<open>
  C2.  In every state of an episode (after the reset and after every step, whatever the
  actions and the demand noise) no inventory level is negative.  For every product of the
  catalog, every action code and every state a restock action is applied to, the cash it
  deducts is not negative and not more than the cash available (nothing is deducted when the
  cash flow is negative), so a restock never takes a non-negative cash flow below zero; the
  same holds for all the restock actions of a step together.  When the cash is less than the
  cost of the requested tier, the action does not fail: it orders \<^verbatim>\<open>int(cash / cost_price)\<close>
  units, the most the cash pays for, and nothing when that is not positive.
\<close>

theorem simulator_inventory_and_cash:
  assumes "reachable env"
  shows "list_all (\<lambda>level. 0 \<le> level) (inventory_levels (bstate env))
         \<and> (\<forall>p \<in> set (products env). \<forall>a bs.
              (let bs' = snd (execute_restock_action (products env) p a bs);
                   spent = cash_flow bs - cash_flow bs'
               in 0 \<le> spent \<and> spent \<le> max 0 (cash_flow bs)
                  \<and> (0 \<le> cash_flow bs \<longrightarrow> 0 \<le> cash_flow bs')
                  \<and> (\<forall>tier. tier_quantity a = Some tier
                              \<and> cash_flow bs < real_of_int tier * cost_price p
                       \<longrightarrow> (let q = py_int (cash_flow bs / cost_price p)
                            in spent = (if 0 < q then real_of_int q * cost_price p else 0)
                               \<and> pending_orders bs'
                                   = (if 0 < q
                                      then (pending_orders bs)
                                             [index_of (products env) p :=
                                                pending_orders bs ! index_of (products env) p
                                                @ [\<lparr> quantity = q, days_remaining = lead_time p,
                                                      cost = real_of_int q * cost_price p \<rparr>]]
                                      else pending_orders bs)
                               \<and> (0 \<le> cash_flow bs
                                    \<longrightarrow> real_of_int q * cost_price p \<le> cash_flow bs
                                        \<and> cash_flow bs < real_of_int (q + 1) * cost_price p)))))
         \<and> (\<forall>product_actions bs.
              cash_flow (snd (restock_all (products env) product_actions bs)) \<le> cash_flow bs
              \<and> (0 \<le> cash_flow bs
                   \<longrightarrow> 0 \<le> cash_flow (snd (restock_all (products env) product_actions bs))))"
proof -
  note inv = reachable_invariant[OF assms]
  have cat: "\<forall>p \<in> set (products env). 0 < cost_price p"
    using inv catalog_facts(3) by simp
  have a: "list_all (\<lambda>level. 0 \<le> level) (inventory_levels (bstate env))"
    using inv by (simp add: inventory_ok_def)
  have b: "\<forall>product_actions bs.
              cash_flow (snd (restock_all (products env) product_actions bs)) \<le> cash_flow bs
              \<and> (0 \<le> cash_flow bs
                   \<longrightarrow> 0 \<le> cash_flow (snd (restock_all (products env) product_actions bs)))"
    using restock_all_cash[OF cat] by blast
  have c: "\<And>p a bs. p \<in> set (products env) \<Longrightarrow>
             (let bs' = snd (execute_restock_action (products env) p a bs);
                   spent = cash_flow bs - cash_flow bs'
               in 0 \<le> spent \<and> spent \<le> max 0 (cash_flow bs)
                  \<and> (0 \<le> cash_flow bs \<longrightarrow> 0 \<le> cash_flow bs')
                  \<and> (\<forall>tier. tier_quantity a = Some tier
                              \<and> cash_flow bs < real_of_int tier * cost_price p
                       \<longrightarrow> (let q = py_int (cash_flow bs / cost_price p)
                            in spent = (if 0 < q then real_of_int q * cost_price p else 0)
                               \<and> pending_orders bs'
                                   = (if 0 < q
                                      then (pending_orders bs)
                                             [index_of (products env) p :=
                                                pending_orders bs ! index_of (products env) p
                                                @ [\<lparr> quantity = q, days_remaining = lead_time p,
                                                      cost = real_of_int q * cost_price p \<rparr>]]
                                      else pending_orders bs)
                               \<and> (0 \<le> cash_flow bs
                                    \<longrightarrow> real_of_int q * cost_price p \<le> cash_flow bs
                                        \<and> cash_flow bs < real_of_int (q + 1) * cost_price p))))"
  proof -
    fix p a bs
    assume "p \<in> set (products env)"
    then have cp: "0 < cost_price p" using cat by simp
    note k = execute_restock_action_cash[OF cp, where ps = "products env" and a = a and bs = bs]
    have r: "\<And>tier. tier_quantity a = Some tier \<Longrightarrow>
                 cash_flow bs < real_of_int tier * cost_price p \<Longrightarrow>
                 cash_flow bs - cash_flow (snd (execute_restock_action (products env) p a bs))
                   = (if 0 < py_int (cash_flow bs / cost_price p)
                      then real_of_int (py_int (cash_flow bs / cost_price p)) * cost_price p
                      else 0)"
      by (simp add: execute_restock_action_reduced(2))
    show "?thesis p a bs"
      unfolding Let_def
      using k r execute_restock_action_reduced(1)[where ps = "products env" and p = p and a = a
          and bs = bs] affordable_quantity[OF cp, of "cash_flow bs"]
      by (intro conjI allI impI) (simp_all; fail)+
  qed
  show ?thesis using a b c by blast
qed

lemma sample_valid: "valid_reset_draws (length create_product_catalog) sample_reset"
  by (simp add: valid_reset_draws_def sample_reset_def create_product_catalog_def)

lemma sample_step: "step sample_noise sample_action (reset sample_reset) = Inr sample_day1"
  unfolding sample_day1_def
  by (rule step_Inr) (simp add: reset_def create_product_catalog_def sample_action_def)














lemma poor_restock:
  "cash_flow poor_state
     - cash_flow (snd (execute_restock_action create_product_catalog
                         (create_product_catalog ! 0) 3 poor_state)) = 100"
  "pending_orders (snd (execute_restock_action create_product_catalog
                          (create_product_catalog ! 0) 3 poor_state)) ! 0
     = [\<lparr>quantity = 4, days_remaining = 7, cost = 100\<rparr>]"
proof -
  let ?p = "create_product_catalog ! 0"
  have p0: "cost_price ?p = 25" "lead_time ?p = 7"
    by (simp_all add: create_product_catalog_def)
  have ix: "index_of create_product_catalog ?p = 0"
    by (rule index_of_nth) (simp_all add: catalog_facts)
  have c: "cash_flow poor_state = 110" by (simp add: poor_state_def)
  have pe: "pending_orders poor_state = replicate 5 []"
    by (simp add: poor_state_def reset_def create_business_state_def catalog_facts)
  have q: "py_int (cash_flow poor_state / cost_price ?p) = 4"
    by (simp add: c p0 py_int_def)
  have t: "tier_quantity 3 = Some 200" by (simp add: tier_quantity_def)
  have lt: "cash_flow poor_state < real_of_int 200 * cost_price ?p" by (simp add: c p0)
  note r = execute_restock_action_reduced[OF t lt, of create_product_catalog, unfolded q]
  show "cash_flow poor_state
     - cash_flow (snd (execute_restock_action create_product_catalog ?p 3 poor_state)) = 100"
    by (simp add: r(2) p0)
  show "pending_orders (snd (execute_restock_action create_product_catalog ?p 3 poor_state)) ! 0
     = [\<lparr>quantity = 4, days_remaining = 7, cost = 100\<rparr>]"
    by (simp add: r(1) p0 ix pe numeral_eq_Suc)
qed

theorem simulator_inventory_and_cash_witness:
  "reachable (new_env sample_day1)
   \<and> list_all (\<lambda>level. 0 \<le> level) (inventory_levels (bstate (new_env sample_day1)))
   \<and> cash_flow poor_state = 110
   \<and> cash_flow poor_state
       - cash_flow (snd (execute_restock_action create_product_catalog
                           (create_product_catalog ! 0) 3 poor_state)) = 100
   \<and> pending_orders (snd (execute_restock_action create_product_catalog
                            (create_product_catalog ! 0) 3 poor_state)) ! 0
       = [\<lparr>quantity = 4, days_remaining = 7, cost = 100\<rparr>]"
proof -
  have r: "reachable (new_env sample_day1)"
    by (rule reachable_step[OF reachable_reset[OF sample_valid] sample_step])
  have "list_all (\<lambda>level. 0 \<le> level) (inventory_levels (bstate (new_env sample_day1)))"
    using simulator_inventory_and_cash[OF r] by blast
  then show ?thesis
    using r poor_restock by (simp add: poor_state_def)
qed

end
